theory Spec2Isabelle
  imports Complex_Main
begin

section \<open>Grade tracker: the grade converter and the average aggregator of src/app.tsx\<close>

text \<open>
  The development embeds the computational core of \<^verbatim>\<open>src/app.tsx\<close>: the table
  \<^verbatim>\<open>letterToNumeric\<close>, the ladder \<^verbatim>\<open>percentageToLetter\<close>, the two copies of
  \<^verbatim>\<open>computeEntryNumeric\<close> and \<^verbatim>\<open>computeAverageCGPA\<close> (one inside the component
  \<^verbatim>\<open>App\<close>, one at module level) and the construction of the chart input.
\<close>

subsection \<open>JavaScript numbers\<close>

text \<open>
  A value of the TypeScript type \<^verbatim>\<open>number\<close> is an IEEE 754 binary64 value: a finite
  number, \<^verbatim>\<open>NaN\<close>, \<^verbatim>\<open>Infinity\<close> or \<^verbatim>\<open>-Infinity\<close>. A finite number is modelled
  by the real it denotes, and every arithmetic operation rounds its exact result to
  binary64 (\<open>roundDouble\<close> below), so that sums are not associative, quotients are
  rounded and large results overflow to an infinity, as in the program. The two zeros
  are one: every divisor of this program is a sum started at \<^verbatim>\<open>0\<close>, which is never
  \<^verbatim>\<open>-0\<close>, and \<^verbatim>\<open>toFixed\<close> and the comparisons treat both zeros alike. A division by
  zero is a branch of the model and not HOL's \<open>x / 0 = 0\<close>.
\<close>

datatype jsnum = Fin real | NaN | PosInf | NegInf

text \<open>The power \<open>2\<^sup>e\<close> for an integer exponent.\<close>

definition pow2 :: "int \<Rightarrow> real" where
  "pow2 e = 2 powr real_of_int e"

text \<open>The integer nearest to a real, the even one of two at a tie.\<close>

definition roundHalfEven :: "real \<Rightarrow> int" where
  "roundHalfEven q =
    (let n = \<lfloor>q\<rfloor>; r = q - of_int n
     in if r < 1 / 2 then n else if 1 / 2 < r then n + 1 else if even n then n else n + 1)"

text \<open>
  The binary64 value of a real result, in the rounding mode of JavaScript (to nearest,
  ties to even). A magnitude in \<open>[2\<^sup>E, 2\<^sup>E\<^sup>+\<^sup>1)\<close> is rounded to a multiple of
  \<open>2\<^sup>E\<^sup>-\<^sup>5\<^sup>2\<close> (53 significant bits), and to a multiple of \<open>2\<^sup>-\<^sup>1\<^sup>0\<^sup>7\<^sup>4\<close> in the
  subnormal range; a result that rounds to \<open>2\<^sup>1\<^sup>0\<^sup>2\<^sup>4\<close> or more overflows to an infinity.
  A number that enters the program is itself a binary64 value: a real \<open>x\<close> with
  \<open>roundDouble x = Fin x\<close>.
\<close>

definition roundDouble :: "real \<Rightarrow> jsnum" where
  "roundDouble x =
    (if x = 0 then Fin 0
     else
       let a = \<bar>x\<bar>;
           e = max (\<lfloor>log 2 a\<rfloor> - 52) (- 1074);
           v = of_int (roundHalfEven (a / pow2 e)) * pow2 e
       in if 2 ^ 1024 \<le> v then (if x < 0 then NegInf else PosInf)
          else Fin (if x < 0 then - v else v))"

text \<open>The sign of a number: \<open>1\<close>, \<open>0\<close> or \<open>- 1\<close>; \<open>0\<close> for \<^verbatim>\<open>NaN\<close>.\<close>

fun jsSign :: "jsnum \<Rightarrow> int" where
  "jsSign (Fin a) = (if a > 0 then 1 else if a < 0 then - 1 else 0)"
| "jsSign NaN = 0"
| "jsSign PosInf = 1"
| "jsSign NegInf = - 1"

text \<open>\<^verbatim>\<open>x + y\<close>: the exact sum of two finite numbers, rounded.\<close>

fun jsAdd :: "jsnum \<Rightarrow> jsnum \<Rightarrow> jsnum" where
  "jsAdd (Fin a) (Fin b) = roundDouble (a + b)"
| "jsAdd (Fin a) NaN = NaN"
| "jsAdd (Fin a) PosInf = PosInf"
| "jsAdd (Fin a) NegInf = NegInf"
| "jsAdd NaN y = NaN"
| "jsAdd PosInf (Fin b) = PosInf"
| "jsAdd PosInf NaN = NaN"
| "jsAdd PosInf PosInf = PosInf"
| "jsAdd PosInf NegInf = NaN"
| "jsAdd NegInf (Fin b) = NegInf"
| "jsAdd NegInf NaN = NaN"
| "jsAdd NegInf PosInf = NaN"
| "jsAdd NegInf NegInf = NegInf"

text \<open>The infinity of a given non-zero sign (\<^verbatim>\<open>NaN\<close> for the sign \<open>0\<close>).\<close>

definition jsInfinity :: "int \<Rightarrow> jsnum" where
  "jsInfinity s = (if s = 0 then NaN else if s > 0 then PosInf else NegInf)"

text \<open>
  \<^verbatim>\<open>x * y\<close>: the exact product of two finite numbers, rounded; an infinity times zero
  is \<^verbatim>\<open>NaN\<close>.
\<close>

fun jsMul :: "jsnum \<Rightarrow> jsnum \<Rightarrow> jsnum" where
  "jsMul (Fin a) (Fin b) = roundDouble (a * b)"
| "jsMul NaN y = NaN"
| "jsMul (Fin a) NaN = NaN"
| "jsMul PosInf NaN = NaN"
| "jsMul NegInf NaN = NaN"
| "jsMul x y = jsInfinity (jsSign x * jsSign y)"

text \<open>
  \<^verbatim>\<open>x / y\<close>: the exact quotient of two finite numbers, rounded; a finite number over
  zero is an infinity of its sign, \<^verbatim>\<open>0 / 0\<close> and an infinity over an infinity are
  \<^verbatim>\<open>NaN\<close>, a finite number over an infinity is zero.
\<close>

fun jsDiv :: "jsnum \<Rightarrow> jsnum \<Rightarrow> jsnum" where
  "jsDiv (Fin a) (Fin b) =
     (if b = 0 then jsInfinity (jsSign (Fin a)) else roundDouble (a / b))"
| "jsDiv NaN y = NaN"
| "jsDiv (Fin a) NaN = NaN"
| "jsDiv PosInf NaN = NaN"
| "jsDiv NegInf NaN = NaN"
| "jsDiv (Fin a) PosInf = Fin 0"
| "jsDiv (Fin a) NegInf = Fin 0"
| "jsDiv PosInf (Fin b) = (if b < 0 then NegInf else PosInf)"
| "jsDiv NegInf (Fin b) = (if b < 0 then PosInf else NegInf)"
| "jsDiv x y = NaN"

text \<open>\<^verbatim>\<open>x >= y\<close> and \<^verbatim>\<open>x > y\<close>: false as soon as one side is \<^verbatim>\<open>NaN\<close>.\<close>

fun jsGe :: "jsnum \<Rightarrow> jsnum \<Rightarrow> bool" where
  "jsGe (Fin a) (Fin b) = (a \<ge> b)"
| "jsGe NaN y = False"
| "jsGe (Fin a) NaN = False"
| "jsGe PosInf NaN = False"
| "jsGe NegInf NaN = False"
| "jsGe PosInf y = True"
| "jsGe (Fin a) PosInf = False"
| "jsGe (Fin a) NegInf = True"
| "jsGe NegInf (Fin b) = False"
| "jsGe NegInf PosInf = False"
| "jsGe NegInf NegInf = True"

fun jsGt :: "jsnum \<Rightarrow> jsnum \<Rightarrow> bool" where
  "jsGt (Fin a) (Fin b) = (a > b)"
| "jsGt NaN y = False"
| "jsGt (Fin a) NaN = False"
| "jsGt PosInf NaN = False"
| "jsGt NegInf NaN = False"
| "jsGt PosInf PosInf = False"
| "jsGt PosInf y = True"
| "jsGt (Fin a) PosInf = False"
| "jsGt (Fin a) NegInf = True"
| "jsGt NegInf y = False"

text \<open>A number is falsy when it is zero or \<^verbatim>\<open>NaN\<close>.\<close>

fun jsFalsy :: "jsnum \<Rightarrow> bool" where
  "jsFalsy (Fin a) = (a = 0)"
| "jsFalsy NaN = True"
| "jsFalsy PosInf = False"
| "jsFalsy NegInf = False"

subsection \<open>Type definitions (lines 26 to 42)\<close>

text \<open>
  \<^verbatim>\<open>interface Assignment { name: string; grade: number | null; weight: number }\<close>
\<close>

record assignment =
  name :: string
  grade :: "jsnum option"
  weight :: jsnum

datatype entryType = Final | Scale

text \<open>
  \<^verbatim>\<open>interface CourseEntry\<close>: the optional fields \<^verbatim>\<open>id\<close>, \<^verbatim>\<open>finalGrade\<close>,
  \<^verbatim>\<open>assignments\<close> and \<^verbatim>\<open>credits\<close> are options, \<open>None\<close> for an absent field.
\<close>

record courseEntry =
  ident :: "string option"
  course :: string
  year :: string
  semester :: string
  goalGrade :: string
  entryType :: entryType
  finalGrade :: "string option"
  assignments :: "assignment list option"
  credits :: "jsnum option"

subsection \<open>The letter table (lines 45 to 59) and property reads on it\<close>

text \<open>The own properties of the object literal \<^verbatim>\<open>letterToNumeric\<close>, in source order.\<close>

definition letterToNumeric :: "(string \<times> jsnum) list" where
  "letterToNumeric =
    [(''A+'', Fin 10), (''A'', Fin 9), (''A-'', Fin 8), (''B+'', Fin 7), (''B'', Fin 6),
     (''C+'', Fin 5), (''C'', Fin 4), (''D+'', Fin 3), (''D'', Fin 2), (''E'', Fin 1),
     (''F'', Fin 0), (''ABS'', Fin 0), (''EIN'', Fin 0)]"

text \<open>
  An object literal inherits from \<^verbatim>\<open>Object.prototype\<close>, and a property read
  \<^verbatim>\<open>obj[key]\<close> that finds no own property continues there. These are the property
  names of \<^verbatim>\<open>Object.prototype\<close> in ECMAScript (with its Annex B).
\<close>

definition objectPrototypeKeys :: "string list" where
  "objectPrototypeKeys =
    [''constructor'', ''hasOwnProperty'', ''isPrototypeOf'', ''propertyIsEnumerable'',
     ''toLocaleString'', ''toString'', ''valueOf'', ''__proto__'',
     ''__defineGetter__'', ''__defineSetter__'', ''__lookupGetter__'', ''__lookupSetter__'']"

text \<open>
  What a read of the table evaluates to: a number, \<^verbatim>\<open>undefined\<close>, or the member of
  \<^verbatim>\<open>Object.prototype\<close> of that name (a function object, or \<^verbatim>\<open>Object.prototype\<close>
  itself for \<^verbatim>\<open>__proto__\<close>), which is neither a number nor nullish.
\<close>

datatype jsval = Number jsnum | Undefined | Inherited string

text \<open>\<^verbatim>\<open>obj[key]\<close> on an object literal with the own properties \<open>obj\<close>.\<close>

definition getProp :: "(string \<times> jsnum) list \<Rightarrow> string \<Rightarrow> jsval" where
  "getProp obj key =
    (case map_of obj key of
       Some v \<Rightarrow> Number v
     | None \<Rightarrow> if key \<in> set objectPrototypeKeys then Inherited key else Undefined)"

text \<open>\<^verbatim>\<open>v ?? d\<close>: the default replaces \<^verbatim>\<open>undefined\<close> (and \<^verbatim>\<open>null\<close>) only.\<close>

fun nullish :: "jsval \<Rightarrow> jsnum \<Rightarrow> jsval" where
  "nullish Undefined d = Number d"
| "nullish (Number n) d = Number n"
| "nullish (Inherited k) d = Inherited k"

text \<open>
  \<^verbatim>\<open>ToNumber\<close>, applied by \<^verbatim>\<open>*\<close> to its operands: a function object and
  \<^verbatim>\<open>Object.prototype\<close> convert to \<^verbatim>\<open>NaN\<close>.
\<close>

fun toNumber :: "jsval \<Rightarrow> jsnum" where
  "toNumber (Number n) = n"
| "toNumber Undefined = NaN"
| "toNumber (Inherited k) = NaN"

subsection \<open>\<^verbatim>\<open>percentageToLetter\<close> (lines 61 to 73)\<close>

definition percentageToLetter :: "jsnum \<Rightarrow> string" where
  "percentageToLetter percentage =
    (if jsGe percentage (Fin 90) then ''A+''
     else if jsGe percentage (Fin 85) then ''A''
     else if jsGe percentage (Fin 80) then ''A-''
     else if jsGe percentage (Fin 75) then ''B+''
     else if jsGe percentage (Fin 70) then ''B''
     else if jsGe percentage (Fin 65) then ''C+''
     else if jsGe percentage (Fin 60) then ''C''
     else if jsGe percentage (Fin 55) then ''D+''
     else if jsGe percentage (Fin 50) then ''D''
     else if jsGe percentage (Fin 40) then ''E''
     else ''F'')"

subsection \<open>\<^verbatim>\<open>computeEntryNumeric\<close>, module level (lines 790 to 804)\<close>

text \<open>\<^verbatim>\<open>entry.finalGrade || "F"\<close>: an absent or empty string gives \<^verbatim>\<open>"F"\<close>.\<close>

definition finalGradeOrF :: "courseEntry \<Rightarrow> string" where
  "finalGradeOrF entry =
    (case finalGrade entry of None \<Rightarrow> ''F'' | Some g \<Rightarrow> if g = [] then ''F'' else g)"

text \<open>\<^verbatim>\<open>entry.assignments || []\<close>: every array is truthy.\<close>

definition assignmentsOrEmpty :: "courseEntry \<Rightarrow> assignment list" where
  "assignmentsOrEmpty entry = (case assignments entry of None \<Rightarrow> [] | Some as \<Rightarrow> as)"

text \<open>\<^verbatim>\<open>a.grade ?? 0\<close>.\<close>

definition gradeOrZero :: "assignment \<Rightarrow> jsnum" where
  "gradeOrZero a = (case grade a of None \<Rightarrow> Fin 0 | Some g \<Rightarrow> g)"

text \<open>
  The two \<^verbatim>\<open>reduce\<close> calls are left folds from \<^verbatim>\<open>0\<close>; the result is a table read
  followed by \<^verbatim>\<open>?? 0\<close>.
\<close>

definition computeEntryNumeric :: "courseEntry \<Rightarrow> jsval" where
  "computeEntryNumeric entry =
    (if entryType entry = Final then
       nullish (getProp letterToNumeric (finalGradeOrF entry)) (Fin 0)
     else
       let assignments = assignmentsOrEmpty entry;
           totalWeight = foldl (\<lambda>sum a. jsAdd sum (weight a)) (Fin 0) assignments;
           weightedSum =
             foldl (\<lambda>sum a. jsAdd sum (jsMul (gradeOrZero a) (weight a))) (Fin 0) assignments;
           avgPercentage =
             (if jsGt totalWeight (Fin 0) then jsDiv weightedSum totalWeight else Fin 0);
           computedLetter = percentageToLetter avgPercentage
       in nullish (getProp letterToNumeric computedLetter) (Fin 0))"

subsection \<open>\<^verbatim>\<open>Number.prototype.toFixed\<close>\<close>

text \<open>The decimal digits of a natural number, most significant first.\<close>

definition digitChar :: "nat \<Rightarrow> char" where
  "digitChar d = ''0123456789'' ! d"

fun decimalDigits :: "nat \<Rightarrow> string" where
  "decimalDigits n =
    (if n < 10 then [digitChar n] else decimalDigits (n div 10) @ [digitChar (n mod 10)])"

declare decimalDigits.simps [simp del]

text \<open>
  \<^verbatim>\<open>x.toFixed(f)\<close> as ECMAScript defines it: a number that is not finite prints as
  its name; otherwise the sign is split off, a magnitude of \<open>10\<^sup>2\<^sup>1\<close> or more prints as
  \<^verbatim>\<open>ToString\<close> does, and a smaller one prints the integer \<open>n\<close> for which
  \<open>n / 10\<^sup>f\<close> is nearest to it (the larger \<open>n\<close> of two), padded with zeros to
  \<open>f + 1\<close> digits, with a point before the last \<open>f\<close> digits. \<^verbatim>\<open>ToString\<close> of a
  magnitude of \<open>10\<^sup>2\<^sup>1\<close> or more is an exponent notation whose digits depend on the
  double nearest to the number; it is the parameter \<open>numberToString\<close>. The program
  calls \<^verbatim>\<open>toFixed\<close> with \<open>f = 2\<close> only, so the \<^verbatim>\<open>RangeError\<close> for an \<open>f\<close> above 100
  is left out.
\<close>

definition toFixed :: "(real \<Rightarrow> string) \<Rightarrow> jsnum \<Rightarrow> nat \<Rightarrow> string" where
  "toFixed numberToString x f =
    (case x of
       NaN \<Rightarrow> ''NaN''
     | PosInf \<Rightarrow> ''Infinity''
     | NegInf \<Rightarrow> ''-Infinity''
     | Fin r \<Rightarrow>
         let s = (if r < 0 then ''-'' else []);
             a = (if r < 0 then - r else r)
         in if a \<ge> 10 ^ 21 then s @ numberToString a
            else
              let n = nat \<lfloor>a * 10 ^ f + 1 / 2\<rfloor>;
                  m = decimalDigits n;
                  m = (if f \<noteq> 0 then
                         let k = length m;
                             m = (if k \<le> f then replicate (f + 1 - k) (CHR ''0'') @ m else m);
                             k = (if k \<le> f then f + 1 else k)
                         in take (k - f) m @ ''.'' @ drop (k - f) m
                       else m)
              in s @ m)"

subsection \<open>\<^verbatim>\<open>computeAverageCGPA\<close>, module level (lines 778 to 788)\<close>

text \<open>\<^verbatim>\<open>entry.credits || 3\<close>: an absent, zero or \<^verbatim>\<open>NaN\<close> field gives \<^verbatim>\<open>3\<close>.\<close>

definition creditsOr3 :: "courseEntry \<Rightarrow> jsnum" where
  "creditsOr3 entry =
    (case credits entry of None \<Rightarrow> Fin 3 | Some c \<Rightarrow> if jsFalsy c then Fin 3 else c)"

text \<open>
  The body of the \<^verbatim>\<open>forEach\<close> callback, on the pair of the two accumulators
  \<^verbatim>\<open>(totalWeighted, totalCredits)\<close>.
\<close>

definition cgpaStep :: "jsnum \<times> jsnum \<Rightarrow> courseEntry \<Rightarrow> jsnum \<times> jsnum" where
  "cgpaStep acc entry =
    (let credits = creditsOr3 entry
     in (jsAdd (fst acc) (jsMul (toNumber (computeEntryNumeric entry)) credits),
         jsAdd (snd acc) credits))"

definition computeAverageCGPA :: "(real \<Rightarrow> string) \<Rightarrow> courseEntry list \<Rightarrow> string" where
  "computeAverageCGPA numberToString entries =
    (if length entries = 0 then ''N/A''
     else
       let acc = foldl cgpaStep (Fin 0, Fin 0) entries
       in toFixed numberToString (jsDiv (fst acc) (snd acc)) 2)"

subsection \<open>The copies inside the component \<^verbatim>\<open>App\<close> (lines 165 to 191)\<close>

definition computeEntryNumeric_App :: "courseEntry \<Rightarrow> jsval" where
  "computeEntryNumeric_App entry =
    (if entryType entry = Final then
       nullish (getProp letterToNumeric (finalGradeOrF entry)) (Fin 0)
     else
       let assignments = assignmentsOrEmpty entry;
           totalWeight = foldl (\<lambda>sum a. jsAdd sum (weight a)) (Fin 0) assignments;
           weightedSum =
             foldl (\<lambda>sum a. jsAdd sum (jsMul (gradeOrZero a) (weight a))) (Fin 0) assignments;
           avgPercentage =
             (if jsGt totalWeight (Fin 0) then jsDiv weightedSum totalWeight else Fin 0);
           computedLetter = percentageToLetter avgPercentage
       in nullish (getProp letterToNumeric computedLetter) (Fin 0))"

definition cgpaStep_App :: "jsnum \<times> jsnum \<Rightarrow> courseEntry \<Rightarrow> jsnum \<times> jsnum" where
  "cgpaStep_App acc entry =
    (let credits = creditsOr3 entry
     in (jsAdd (fst acc) (jsMul (toNumber (computeEntryNumeric_App entry)) credits),
         jsAdd (snd acc) credits))"

definition computeAverageCGPA_App :: "(real \<Rightarrow> string) \<Rightarrow> courseEntry list \<Rightarrow> string" where
  "computeAverageCGPA_App numberToString entries =
    (if length entries = 0 then ''N/A''
     else
       let acc = foldl cgpaStep_App (Fin 0, Fin 0) entries
       in toFixed numberToString (jsDiv (fst acc) (snd acc)) 2)"

subsection \<open>\<^verbatim>\<open>parseFloat\<close>\<close>

definition isDigit :: "char \<Rightarrow> bool" where
  "isDigit c = (c \<in> set ''0123456789'')"

definition digitValue :: "char \<Rightarrow> nat" where
  "digitValue c = of_char c - 48"

text \<open>The number a string of decimal digits denotes; \<open>0\<close> for the empty string.\<close>

definition digitsValue :: "string \<Rightarrow> nat" where
  "digitsValue ds = foldl (\<lambda>acc c. 10 * acc + digitValue c) 0 ds"

text \<open>
  The white space that \<^verbatim>\<open>parseFloat\<close> skips. A character of the model is a code unit
  below 256, and the white space among these is tab, line feed, vertical tab, form feed,
  carriage return, space and the no-break space U+00A0; the white space of Unicode
  above U+00FF has no character in the model. In the part of the program embedded here
  \<^verbatim>\<open>parseFloat\<close> is applied to CGPA strings and to \<^verbatim>\<open>"0"\<close>.
\<close>

definition isWhiteSpace :: "char \<Rightarrow> bool" where
  "isWhiteSpace c = (of_char c \<in> set [9, 10, 11, 12, 13, 32, 160 :: nat])"

text \<open>
  The value of an \<^verbatim>\<open>ExponentPart\<close> at the head of the text that follows the mantissa:
  \<^verbatim>\<open>e\<close> or \<^verbatim>\<open>E\<close>, an optional sign and at least one digit; \<open>0\<close> when there is none.
\<close>

definition exponentPart :: "string \<Rightarrow> int" where
  "exponentPart r =
    (case r of
       [] \<Rightarrow> 0
     | c # r1 \<Rightarrow>
         if c = CHR ''e'' \<or> c = CHR ''E'' then
           (case r1 of
              [] \<Rightarrow> 0
            | d # r2 \<Rightarrow>
                if d = CHR ''+'' then int (digitsValue (takeWhile isDigit r2))
                else if d = CHR ''-'' then - int (digitsValue (takeWhile isDigit r2))
                else int (digitsValue (takeWhile isDigit r1)))
         else 0)"

definition scale10 :: "real \<Rightarrow> int \<Rightarrow> real" where
  "scale10 m e = (if e \<ge> 0 then m * 10 ^ nat e else m / 10 ^ nat (- e))"

text \<open>
  The value of the longest prefix that is an unsigned decimal literal: decimal digits
  with an optional fraction, or a point and decimal digits, each with an optional
  exponent; \<open>None\<close> when no prefix is one.
\<close>

definition strUnsignedDecimal :: "string \<Rightarrow> real option" where
  "strUnsignedDecimal unsigned =
    (let intDigits = takeWhile isDigit unsigned;
         r1 = dropWhile isDigit unsigned;
         hasPoint = (case r1 of [] \<Rightarrow> False | c # r \<Rightarrow> c = CHR ''.'');
         fracDigits = (if hasPoint then takeWhile isDigit (tl r1) else []);
         r2 = (if hasPoint then dropWhile isDigit (tl r1) else r1)
     in if intDigits = [] \<and> fracDigits = [] then None
        else
          Some (scale10
                 (real (digitsValue intDigits)
                  + real (digitsValue fracDigits) / 10 ^ length fracDigits)
                 (exponentPart r2)))"

text \<open>
  \<^verbatim>\<open>parseFloat(inputString)\<close> as ECMAScript defines it: leading white space is
  dropped, and the longest prefix that is a \<^verbatim>\<open>StrDecimalLiteral\<close> (an optional sign,
  then \<^verbatim>\<open>Infinity\<close> or an unsigned decimal literal) gives the value, rounded to
  binary64; \<^verbatim>\<open>NaN\<close> when no prefix is one.
\<close>

definition parseFloat :: "string \<Rightarrow> jsnum" where
  "parseFloat inputString =
    (let trimmed = dropWhile isWhiteSpace inputString;
         neg = (case trimmed of [] \<Rightarrow> False | c # r \<Rightarrow> c = CHR ''-'');
         unsigned =
           (case trimmed of
              [] \<Rightarrow> []
            | c # r \<Rightarrow> if c = CHR ''-'' \<or> c = CHR ''+'' then r else trimmed)
     in if take 8 unsigned = ''Infinity'' then (if neg then NegInf else PosInf)
        else
          (case strUnsignedDecimal unsigned of
             None \<Rightarrow> NaN
           | Some v \<Rightarrow> roundDouble (if neg then - v else v)))"

subsection \<open>The chart input (lines 338 to 354 and 732 to 749)\<close>

record chartInput =
  labels :: "string list"
  dataValues :: "jsnum list"

datatype error = TypeError

text \<open>The template literal \<^verbatim>\<open>`${entry.year} ${entry.semester}`\<close>.\<close>

definition groupKey :: "courseEntry \<Rightarrow> string" where
  "groupKey entry = year entry @ '' '' @ semester entry"

text \<open>
  The object \<^verbatim>\<open>semesterGroups\<close>: its own properties in the order of their creation,
  each holding an array of entries.
\<close>

type_synonym semesterGroups = "(string \<times> courseEntry list) list"

text \<open>
  The body of the first \<^verbatim>\<open>forEach\<close>. The read \<^verbatim>\<open>semesterGroups[key]\<close> finds an
  own array (truthy, and the entry is pushed), or a member of \<^verbatim>\<open>Object.prototype\<close>
  (truthy, with no method \<^verbatim>\<open>push\<close>: the call raises a \<^verbatim>\<open>TypeError\<close>), or
  nothing, and then the property is created with the entry.
\<close>

definition addToGroup :: "semesterGroups \<Rightarrow> courseEntry \<Rightarrow> error + semesterGroups" where
  "addToGroup groups entry =
    (let key = groupKey entry
     in case map_of groups key of
          Some es \<Rightarrow>
            Inr (map (\<lambda>(k, es). if k = key then (k, es @ [entry]) else (k, es)) groups)
        | None \<Rightarrow>
            if key \<in> set objectPrototypeKeys then Inl TypeError
            else Inr (groups @ [(key, [entry])]))"

fun groupEntries :: "semesterGroups \<Rightarrow> courseEntry list \<Rightarrow> error + semesterGroups" where
  "groupEntries groups [] = Inr groups"
| "groupEntries groups (entry # rest) =
    (case addToGroup groups entry of
       Inl e \<Rightarrow> Inl e
     | Inr groups' \<Rightarrow> groupEntries groups' rest)"

text \<open>
  \<^verbatim>\<open>Object.keys\<close>: the keys that are array indices (canonical decimal numerals
  below \<open>2\<^sup>3\<^sup>2 - 1 = 4294967295\<close>) come first, in ascending numeric order, then the
  other keys in the order of their creation.
\<close>

definition isArrayIndex :: "string \<Rightarrow> bool" where
  "isArrayIndex s =
    (s \<noteq> [] \<and> list_all isDigit s \<and> (length s = 1 \<or> take 1 s \<noteq> ''0'')
     \<and> digitsValue s < 4294967295)"

definition objectKeys :: "(string \<times> 'a) list \<Rightarrow> string list" where
  "objectKeys obj =
    (let ks = map fst obj
     in sort_key digitsValue (filter isArrayIndex ks) @ filter (\<lambda>k. \<not> isArrayIndex k) ks)"

text \<open>
  The second \<^verbatim>\<open>forEach\<close>, over the keys, on the pair \<^verbatim>\<open>(labels, dataValues)\<close>;
  \<open>cgpa\<close> is the \<^verbatim>\<open>computeAverageCGPA\<close> in scope. A key with no own array would make
  \<^verbatim>\<open>computeAverageCGPA\<close> raise a \<^verbatim>\<open>TypeError\<close>.
\<close>

fun chartRows ::
  "(courseEntry list \<Rightarrow> string) \<Rightarrow> semesterGroups \<Rightarrow> string list
    \<Rightarrow> string list \<times> jsnum list \<Rightarrow> error + string list \<times> jsnum list" where
  "chartRows cgpa groups [] acc = Inr acc"
| "chartRows cgpa groups (key # rest) acc =
    (case map_of groups key of
       None \<Rightarrow> Inl TypeError
     | Some es \<Rightarrow>
         chartRows cgpa groups rest
           (fst acc @ [key], snd acc @ [parseFloat (cgpa es)]))"

text \<open>
  The chart data from the entries and the string \<^verbatim>\<open>totalCgpa\<close>. Lines 338 to 354 in
  the body of \<^verbatim>\<open>App\<close> and lines 733 to 749 in \<^verbatim>\<open>ChartAnalytics\<close> are the same text;
  they differ in the \<^verbatim>\<open>computeAverageCGPA\<close> that is in scope, here the parameter
  \<open>cgpa\<close>.
\<close>

definition buildChart ::
  "(courseEntry list \<Rightarrow> string) \<Rightarrow> courseEntry list \<Rightarrow> string \<Rightarrow> error + chartInput" where
  "buildChart cgpa progressData totalCgpa =
    (case groupEntries [] progressData of
       Inl e \<Rightarrow> Inl e
     | Inr groups \<Rightarrow>
         (case chartRows cgpa groups (objectKeys groups) ([], []) of
            Inl e \<Rightarrow> Inl e
          | Inr acc \<Rightarrow>
              Inr \<lparr>labels = fst acc @ [''Overall''],
                   dataValues =
                     snd acc @ [parseFloat (if totalCgpa = ''N/A'' then ''0'' else totalCgpa)]\<rparr>))"

text \<open>
  \<^verbatim>\<open>ChartAnalytics\<close> (lines 732 to 749) calls the module-level
  \<^verbatim>\<open>computeAverageCGPA\<close> and takes \<^verbatim>\<open>totalCgpa\<close> as a property.
\<close>

definition ChartAnalytics ::
  "(real \<Rightarrow> string) \<Rightarrow> courseEntry list \<Rightarrow> string \<Rightarrow> error + chartInput" where
  "ChartAnalytics numberToString progressData totalCgpa =
    buildChart (computeAverageCGPA numberToString) progressData totalCgpa"

text \<open>
  The body of \<^verbatim>\<open>App\<close> (lines 193 and 338 to 354) calls its own
  \<^verbatim>\<open>computeAverageCGPA\<close>, also for \<^verbatim>\<open>totalCgpa\<close>.
\<close>

definition AppChartData :: "(real \<Rightarrow> string) \<Rightarrow> courseEntry list \<Rightarrow> error + chartInput" where
  "AppChartData numberToString progressData =
    buildChart (computeAverageCGPA_App numberToString) progressData
      (computeAverageCGPA_App numberToString progressData)"

text \<open>
  The analytics section of \<^verbatim>\<open>App\<close> (lines 713 to 719): no chart for an empty
  collection, otherwise \<^verbatim>\<open>ChartAnalytics\<close> with the \<^verbatim>\<open>totalCgpa\<close> of \<^verbatim>\<open>App\<close>.
\<close>

definition analyticsSection ::
  "(real \<Rightarrow> string) \<Rightarrow> courseEntry list \<Rightarrow> (error + chartInput) option" where
  "analyticsSection numberToString progressData =
    (if length progressData = 0 then None
     else Some (ChartAnalytics numberToString progressData
                  (computeAverageCGPA_App numberToString progressData)))"

section \<open>Notions of the specification\<close>

text \<open>
  The definitions of this section follow the words of the specification; the properties
  below compare them with the code. The arithmetic of the specification is read as the
  arithmetic of the program's numbers: each sum, product and quotient is a binary64
  operation, and a sum over a sequence adds its terms in the order of the sequence.
\<close>

subsection \<open>Sums, the average percentage of a scale entry, the credit-weighted quotient\<close>

text \<open>The sum \<open>\<Sigma>\<close> of a list of numbers: from 0, one term after the other.\<close>

definition jsSum :: "jsnum list \<Rightarrow> jsnum" where
  "jsSum xs = foldl jsAdd (Fin 0) xs"

text \<open>
  What an assignment adds to \<open>weightedSum\<close>: its grade times its weight, with the
  grade 0 for an absent grade.
\<close>

definition contribution :: "assignment \<Rightarrow> jsnum" where
  "contribution a = jsMul (case grade a of None \<Rightarrow> Fin 0 | Some g \<Rightarrow> g) (weight a)"

text \<open>
  \<open>avgPercentage\<close>: \<open>weightedSum / totalWeight\<close> when \<open>totalWeight > 0\<close>, and 0
  otherwise, where \<open>totalWeight\<close> is the sum of all weights.
\<close>

definition scaleAverage :: "assignment list \<Rightarrow> jsnum" where
  "scaleAverage as =
    (let totalWeight = jsSum (map weight as);
         weightedSum = jsSum (map contribution as)
     in if jsGt totalWeight (Fin 0) then jsDiv weightedSum totalWeight else Fin 0)"

text \<open>
  \<open>totalWeightedPoints = \<Sigma> computeEntryNumeric(entry) \<times> credits(entry)\<close> and
  \<open>totalCredits = \<Sigma> credits(entry)\<close>.
\<close>

definition totalWeightedPoints :: "courseEntry list \<Rightarrow> jsnum" where
  "totalWeightedPoints entries =
     jsSum (map (\<lambda>entry. jsMul (toNumber (computeEntryNumeric entry)) (creditsOr3 entry)) entries)"

definition totalCredits :: "courseEntry list \<Rightarrow> jsnum" where
  "totalCredits entries = jsSum (map creditsOr3 entries)"

subsection \<open>A number formatted with exactly two fractional digits\<close>

text \<open>
  The numeral of \<open>n\<close> hundredths: the decimal digits of \<open>n div 100\<close>, a point, and the
  two digits of \<open>n mod 100\<close>.
\<close>

definition fixed2 :: "nat \<Rightarrow> string" where
  "fixed2 n =
     decimalDigits (n div 100) @ ''.'' @ [digitChar (n div 10 mod 10), digitChar (n mod 10)]"

text \<open>A real rounded to the nearest hundredth, a tie away from zero.\<close>

definition roundHundredths :: "real \<Rightarrow> real" where
  "roundHundredths q =
     (if q < 0 then - (real_of_int \<lfloor>- q * 100 + 1 / 2\<rfloor> / 100)
      else real_of_int \<lfloor>q * 100 + 1 / 2\<rfloor> / 100)"

text \<open>
  The shape of such a string: an optional minus sign, at least one digit, a point, and
  exactly two digits.
\<close>

definition hasTwoFractionDigits :: "string \<Rightarrow> bool" where
  "hasTwoFractionDigits s =
     (let u = (case s of [] \<Rightarrow> [] | c # r \<Rightarrow> if c = CHR ''-'' then r else s);
          r = dropWhile isDigit u
      in takeWhile isDigit u \<noteq> [] \<and> take 1 r = ''.'' \<and> length r = 3
         \<and> list_all isDigit (drop 1 r))"

subsection \<open>The grade point as a count of thresholds\<close>

text \<open>How many of the ten lower bounds of the ladder a percentage reaches.\<close>

definition thresholdsPassed :: "jsnum \<Rightarrow> nat" where
  "thresholdsPassed p =
     length (filter (\<lambda>t. jsGe p (Fin t)) [40, 50, 55, 60, 65, 70, 75, 80, 85, 90])"

subsection \<open>The chart input\<close>

text \<open>The distinct keys of a list, in the order in which each is first encountered.\<close>

fun encounterOrder :: "string list \<Rightarrow> string list" where
  "encounterOrder [] = []"
| "encounterOrder (k # ks) = k # removeAll k (encounterOrder ks)"

text \<open>The entries of one \<^verbatim>\<open>"<year> <semester>"\<close> group, in the order of the collection.\<close>

definition groupOf :: "string \<Rightarrow> courseEntry list \<Rightarrow> courseEntry list" where
  "groupOf k entries = filter (\<lambda>entry. groupKey entry = k) entries"

text \<open>
  The chart input as the specification words it: the group keys in encounter order and
  a final \<^verbatim>\<open>"Overall"\<close>; for each group its CGPA parsed as a number, and last the
  overall CGPA, with \<^verbatim>\<open>"N/A"\<close> mapped to 0.
\<close>

definition chartInputSpec ::
  "(courseEntry list \<Rightarrow> string) \<Rightarrow> courseEntry list \<Rightarrow> string \<Rightarrow> chartInput" where
  "chartInputSpec cgpa entries overall =
    \<lparr>labels = encounterOrder (map groupKey entries) @ [''Overall''],
     dataValues =
       map (\<lambda>k. parseFloat (cgpa (groupOf k entries))) (encounterOrder (map groupKey entries))
       @ [if overall = ''N/A'' then Fin 0 else parseFloat overall]\<rparr>"

text \<open>The object \<^verbatim>\<open>semesterGroups\<close> that the first loop is to build from the entries.\<close>

definition groupsOf :: "courseEntry list \<Rightarrow> semesterGroups" where
  "groupsOf entries =
     map (\<lambda>k. (k, groupOf k entries)) (encounterOrder (map groupKey entries))"

subsection \<open>Sample entries\<close>

text \<open>
  A final-grade entry of a given year, semester, letter and credits, and a scale entry
  of given assignments; the two assignments of the example of the specification.
\<close>

definition finalEntry :: "string \<Rightarrow> string \<Rightarrow> string \<Rightarrow> jsnum \<Rightarrow> courseEntry" where
  "finalEntry y s g c =
    \<lparr>ident = None, course = ''CSC1010'', year = y, semester = s,
     goalGrade = ''A'', entryType = Final, finalGrade = Some g, assignments = None,
     credits = Some c\<rparr>"

definition scaleEntry :: "assignment list \<Rightarrow> courseEntry" where
  "scaleEntry as =
    \<lparr>ident = None, course = ''CSC1010'', year = ''2024'', semester = ''Fall'',
     goalGrade = ''A'', entryType = Scale, finalGrade = None, assignments = Some as,
     credits = Some (Fin 3)\<rparr>"



text \<open>A graded assignment of a given grade and weight.\<close>

definition graded :: "real \<Rightarrow> real \<Rightarrow> assignment" where
  "graded g w = \<lparr>name = ''Quiz'', grade = Some (Fin g), weight = Fin w\<rparr>"

section \<open>Properties\<close>

subsection \<open>The grade converter\<close>

text \<open>
  The grade point of a percentage, read through the table: the ladder of
  \<^verbatim>\<open>percentageToLetter\<close> composed with the table read.
\<close>

lemma getProp_percentageToLetter:
  "getProp letterToNumeric (percentageToLetter p) =
     Number (Fin (if jsGe p (Fin 90) then 10 else if jsGe p (Fin 85) then 9
       else if jsGe p (Fin 80) then 8 else if jsGe p (Fin 75) then 7
       else if jsGe p (Fin 70) then 6 else if jsGe p (Fin 65) then 5
       else if jsGe p (Fin 60) then 4 else if jsGe p (Fin 55) then 3
       else if jsGe p (Fin 50) then 2 else if jsGe p (Fin 40) then 1 else 0))"
  by (simp add: percentageToLetter_def getProp_def letterToNumeric_def)

lemma jsGe_trans_Fin: "jsGe p2 p1 \<Longrightarrow> jsGe p1 (Fin t) \<Longrightarrow> jsGe p2 (Fin t)"
  by (cases p1; cases p2) simp_all

lemma nullish_percentageToLetter:
  "nullish (getProp letterToNumeric (percentageToLetter p)) d
   = getProp letterToNumeric (percentageToLetter p)"
  by (simp add: getProp_percentageToLetter)

text \<open>The grade point is the number of thresholds the percentage reaches.\<close>

lemma getProp_thresholdsPassed:
  "getProp letterToNumeric (percentageToLetter p) = Number (Fin (real (thresholdsPassed p)))"
  unfolding getProp_percentageToLetter thresholdsPassed_def
  by (cases p) simp_all

lemma length_filter_mono:
  "(\<And>x. P x \<Longrightarrow> Q x) \<Longrightarrow> length (filter P xs) \<le> length (filter Q xs)"
  by (induction xs) auto

lemma thresholdsPassed_mono: "jsGe p2 p1 \<Longrightarrow> thresholdsPassed p1 \<le> thresholdsPassed p2"
  unfolding thresholdsPassed_def
  by (rule length_filter_mono) (rule jsGe_trans_Fin)

lemma thresholdsPassed_le: "thresholdsPassed p \<le> 10"
proof -
  have "thresholdsPassed p \<le> length [40, 50, 55, 60, 65, 70, 75, 80, 85, 90 :: real]"
    unfolding thresholdsPassed_def by (rule length_filter_le)
  then show ?thesis by simp
qed

text \<open>
  Claim C3. \<^verbatim>\<open>percentageToLetter\<close> maps every real percentage to exactly one letter
  by the ladder of inclusive lower bounds, read from the top: \<open>A+\<close> from 90, \<open>A\<close> from
  85, \<open>A-\<close> from 80, \<open>B+\<close> from 75, \<open>B\<close> from 70, \<open>C+\<close> from 65, \<open>C\<close> from 60,
  \<open>D+\<close> from 55, \<open>D\<close> from 50, \<open>E\<close> from 40, and \<open>F\<close> below 40. In particular 90
  gives \<open>A+\<close>, 89.999 gives \<open>A\<close>, 50 gives \<open>D\<close>, 39.999 gives \<open>F\<close>, every negative
  percentage gives \<open>F\<close> and every percentage above 100 (150, say) gives \<open>A+\<close>.
\<close>

theorem percentageToLetter_ladder:
  "(percentageToLetter (Fin p) = ''A+'' \<longleftrightarrow> 90 \<le> p)
 \<and> (percentageToLetter (Fin p) = ''A'' \<longleftrightarrow> 85 \<le> p \<and> p < 90)
 \<and> (percentageToLetter (Fin p) = ''A-'' \<longleftrightarrow> 80 \<le> p \<and> p < 85)
 \<and> (percentageToLetter (Fin p) = ''B+'' \<longleftrightarrow> 75 \<le> p \<and> p < 80)
 \<and> (percentageToLetter (Fin p) = ''B'' \<longleftrightarrow> 70 \<le> p \<and> p < 75)
 \<and> (percentageToLetter (Fin p) = ''C+'' \<longleftrightarrow> 65 \<le> p \<and> p < 70)
 \<and> (percentageToLetter (Fin p) = ''C'' \<longleftrightarrow> 60 \<le> p \<and> p < 65)
 \<and> (percentageToLetter (Fin p) = ''D+'' \<longleftrightarrow> 55 \<le> p \<and> p < 60)
 \<and> (percentageToLetter (Fin p) = ''D'' \<longleftrightarrow> 50 \<le> p \<and> p < 55)
 \<and> (percentageToLetter (Fin p) = ''E'' \<longleftrightarrow> 40 \<le> p \<and> p < 50)
 \<and> (percentageToLetter (Fin p) = ''F'' \<longleftrightarrow> p < 40)
 \<and> percentageToLetter (Fin 90) = ''A+''
 \<and> percentageToLetter (Fin 89.999) = ''A''
 \<and> percentageToLetter (Fin 50) = ''D''
 \<and> percentageToLetter (Fin 39.999) = ''F''
 \<and> percentageToLetter (Fin (- 5)) = ''F''
 \<and> percentageToLetter (Fin 150) = ''A+''
 \<and> (q < 0 \<longrightarrow> percentageToLetter (Fin q) = ''F'')
 \<and> (r > 100 \<longrightarrow> percentageToLetter (Fin r) = ''A+'')"
  by (simp add: percentageToLetter_def)

theorem percentageToLetter_ladder_witness:
  "percentageToLetter (Fin 72) = ''B'' \<and> percentageToLetter (Fin 72) \<noteq> ''B+''
   \<and> (- 1 :: real) < 0 \<and> percentageToLetter (Fin (- 1)) = ''F''
   \<and> (100.5 :: real) > 100 \<and> percentageToLetter (Fin 100.5) = ''A+''"
  using percentageToLetter_ladder [of 72 "- 1" "100.5"] by simp

text \<open>
  Claim C6. The grade point of a percentage is monotone: whenever \<open>p1 \<le> p2\<close> (as
  JavaScript compares them, \<^verbatim>\<open>p2 >= p1\<close>), the table value of the letter of \<open>p1\<close> is
  at most the table value of the letter of \<open>p2\<close>, and both are numbers.
\<close>

theorem gradePoint_monotone:
  assumes "jsGe p2 p1"
  shows "\<exists>n1 n2. getProp letterToNumeric (percentageToLetter p1) = Number (Fin n1)
      \<and> getProp letterToNumeric (percentageToLetter p2) = Number (Fin n2) \<and> n1 \<le> n2"
  using thresholdsPassed_mono [OF assms] by (simp add: getProp_thresholdsPassed)

theorem gradePoint_monotone_witness:
  "jsGe (Fin 85) (Fin 62.5)
   \<and> (\<exists>n1 n2. getProp letterToNumeric (percentageToLetter (Fin 62.5)) = Number (Fin n1)
        \<and> getProp letterToNumeric (percentageToLetter (Fin 85)) = Number (Fin n2) \<and> n1 \<le> n2)"
  using gradePoint_monotone [of "Fin 85" "Fin 62.5"] by simp

subsection \<open>The letter table read with a final grade\<close>

text \<open>The thirteen own keys read as the table says.\<close>

lemma letterToNumeric_table:
  "getProp letterToNumeric ''A+'' = Number (Fin 10)"
  "getProp letterToNumeric ''A'' = Number (Fin 9)"
  "getProp letterToNumeric ''A-'' = Number (Fin 8)"
  "getProp letterToNumeric ''B+'' = Number (Fin 7)"
  "getProp letterToNumeric ''B'' = Number (Fin 6)"
  "getProp letterToNumeric ''C+'' = Number (Fin 5)"
  "getProp letterToNumeric ''C'' = Number (Fin 4)"
  "getProp letterToNumeric ''D+'' = Number (Fin 3)"
  "getProp letterToNumeric ''D'' = Number (Fin 2)"
  "getProp letterToNumeric ''E'' = Number (Fin 1)"
  "getProp letterToNumeric ''F'' = Number (Fin 0)"
  "getProp letterToNumeric ''ABS'' = Number (Fin 0)"
  "getProp letterToNumeric ''EIN'' = Number (Fin 0)"
  by (simp_all add: getProp_def letterToNumeric_def)

text \<open>
  A key that is neither an own key of the table nor a property name of
  \<^verbatim>\<open>Object.prototype\<close> (\<^verbatim>\<open>"Z"\<close>, say) reads as \<^verbatim>\<open>undefined\<close>, which \<^verbatim>\<open>?? 0\<close>
  turns into \<^verbatim>\<open>0\<close>.
\<close>

lemma getProp_unknown_key:
  assumes "key \<notin> set (map fst letterToNumeric)" and "key \<notin> set objectPrototypeKeys"
  shows "nullish (getProp letterToNumeric key) (Fin 0) = Number (Fin 0)"
proof -
  have "map_of letterToNumeric key = None"
    using assms(1) by (simp add: map_of_eq_None_iff)
  then show ?thesis
    using assms(2) by (simp add: getProp_def)
qed

lemma getProp_Z: "nullish (getProp letterToNumeric ''Z'') (Fin 0) = Number (Fin 0)"
  by (rule getProp_unknown_key) (simp_all add: letterToNumeric_def objectPrototypeKeys_def)

text \<open>Every own key reads as one of the integers 0 to 10.\<close>

lemma letterToNumeric_values:
  assumes "map_of letterToNumeric key = Some v"
  shows "\<exists>n::nat. v = Fin (real n) \<and> n \<le> 10"
proof -
  have "(key, v) \<in> set letterToNumeric" using assms by (rule map_of_SomeD)
  then have "v \<in> snd ` set letterToNumeric" by (rule image_eqI [rotated]) simp
  then have "v \<in> set (map (\<lambda>n. Fin (real n)) [10, 9, 8, 7, 6, 5, 4, 3, 2, 1, 0 :: nat])"
    by (simp add: letterToNumeric_def)
  then obtain n :: nat where "v = Fin (real n)" "n \<in> set [10, 9, 8, 7, 6, 5, 4, 3, 2, 1, 0]"
    unfolding set_map by blast
  then show ?thesis by auto
qed

lemma getProp_own_key:
  assumes "key \<in> set (map fst letterToNumeric)"
  shows "\<exists>n::nat. getProp letterToNumeric key = Number (Fin (real n)) \<and> n \<le> 10"
proof -
  obtain v where v: "map_of letterToNumeric key = Some v"
    using assms by (cases "map_of letterToNumeric key") (simp_all add: map_of_eq_None_iff)
  show ?thesis
    using letterToNumeric_values [OF v] by (simp add: getProp_def v)
qed

text \<open>
  Claim C5. The conversion is the fixed table, and a string that is not in the table
  is meant to convert to 0. The code reads the table with \<^verbatim>\<open>letterToNumeric[key] ?? 0\<close>,
  and for the key \<^verbatim>\<open>"constructor"\<close> the read finds the member of
  \<^verbatim>\<open>Object.prototype\<close> of that name, which \<^verbatim>\<open>?? 0\<close> lets through: the entry below,
  with the final grade \<^verbatim>\<open>"constructor"\<close>, converts to that function object and not to 0.
\<close>

theorem computeEntryNumeric_inherited_key:
  "computeEntryNumeric
     \<lparr>ident = None, course = ''CSC1010'', year = ''2024'', semester = ''Fall'',
      goalGrade = ''A'', entryType = Final, finalGrade = Some ''constructor'',
      assignments = None, credits = Some (Fin 3)\<rparr>
   = Inherited ''constructor''"
  by (simp add: computeEntryNumeric_def finalGradeOrF_def getProp_def letterToNumeric_def
      objectPrototypeKeys_def)

text \<open>
  Claim C9. \<^verbatim>\<open>computeEntryNumeric\<close> is meant to return one of the integers 0 to 10.
  For the final grade \<^verbatim>\<open>"toString"\<close> it returns the function
  \<^verbatim>\<open>Object.prototype.toString\<close>, which is no number at all (and \<^verbatim>\<open>NaN\<close> once
  \<^verbatim>\<open>computeAverageCGPA\<close> multiplies it by the credits).
\<close>

theorem computeEntryNumeric_not_a_number:
  "computeEntryNumeric
     \<lparr>ident = None, course = ''CSC1010'', year = ''2024'', semester = ''Fall'',
      goalGrade = ''A'', entryType = Final, finalGrade = Some ''toString'',
      assignments = None, credits = Some (Fin 3)\<rparr>
   = Inherited ''toString''
   \<and> toNumber (computeEntryNumeric
     \<lparr>ident = None, course = ''CSC1010'', year = ''2024'', semester = ''Fall'',
      goalGrade = ''A'', entryType = Final, finalGrade = Some ''toString'',
      assignments = None, credits = Some (Fin 3)\<rparr>) = NaN"
  by (simp add: computeEntryNumeric_def finalGradeOrF_def getProp_def letterToNumeric_def
      objectPrototypeKeys_def)

subsection \<open>The two copies of the aggregator\<close>

lemma computeEntryNumeric_App_eq: "computeEntryNumeric_App = computeEntryNumeric"
  by (rule ext) (simp add: computeEntryNumeric_App_def computeEntryNumeric_def)

lemma cgpaStep_App_eq: "cgpaStep_App = cgpaStep"
  by (intro ext) (simp add: cgpaStep_App_def cgpaStep_def computeEntryNumeric_App_eq)

lemma computeAverageCGPA_App_eq: "computeAverageCGPA_App = computeAverageCGPA"
  by (intro ext) (simp add: computeAverageCGPA_App_def computeAverageCGPA_def cgpaStep_App_eq)

text \<open>
  Claim C7. The functions \<^verbatim>\<open>computeEntryNumeric\<close> and \<^verbatim>\<open>computeAverageCGPA\<close> defined
  inside \<^verbatim>\<open>App\<close> and the functions of the same names defined at module level, which
  the chart sub-view calls, return the same value on every entry and on every list of
  entries.
\<close>

theorem App_copies_equal:
  "computeEntryNumeric_App entry = computeEntryNumeric entry
   \<and> computeAverageCGPA_App numberToString entries = computeAverageCGPA numberToString entries"
  by (simp add: computeEntryNumeric_App_eq computeAverageCGPA_App_eq)

subsection \<open>The average of an empty collection\<close>

text \<open>
  Claim C4. \<^verbatim>\<open>computeAverageCGPA\<close> of the empty list is the string \<^verbatim>\<open>"N/A"\<close>: it is
  not a numeric string (\<^verbatim>\<open>parseFloat\<close> gives \<^verbatim>\<open>NaN\<close>) and not a zero.
\<close>

theorem computeAverageCGPA_empty:
  "computeAverageCGPA numberToString [] = ''N/A''
   \<and> parseFloat (computeAverageCGPA numberToString []) = NaN
   \<and> computeAverageCGPA numberToString [] \<noteq> ''0.00''
   \<and> computeAverageCGPA numberToString [] \<noteq> ''0''"
  by (simp add: computeAverageCGPA_def parseFloat_def strUnsignedDecimal_def isWhiteSpace_def
      isDigit_def)

subsection \<open>Rounding to binary64\<close>

text \<open>
  A real \<open>m \<times> 2\<^sup>e\<close> with \<open>|m| < 2\<^sup>5\<^sup>3\<close>, \<open>e \<ge> -1074\<close> and a magnitude below
  \<open>2\<^sup>1\<^sup>0\<^sup>2\<^sup>4\<close> is a binary64 value, and rounding leaves it as it is; so for the integers
  below \<open>2\<^sup>5\<^sup>3\<close> and their halves. In a given binade \<open>[2\<^sup>E, 2\<^sup>E\<^sup>+\<^sup>1)\<close> the rounding is to
  the nearest multiple of \<open>2\<^sup>E\<^sup>-\<^sup>5\<^sup>2\<close>.
\<close>

lemma pow2_pos [simp]: "0 < pow2 e"
  by (simp add: pow2_def)

lemma pow2_add: "pow2 (a + b) = pow2 a * pow2 b"
  by (simp add: pow2_def powr_add)

lemma pow2_nat: "0 \<le> e \<Longrightarrow> pow2 e = 2 ^ nat e"
  by (simp add: pow2_def powr_realpow [symmetric])

lemma pow2_diff: "pow2 a / pow2 b = pow2 (a - b)"
  by (simp add: pow2_def powr_diff)

lemma roundHalfEven_of_int [simp]: "roundHalfEven (of_int k) = k"
  by (simp add: roundHalfEven_def)

lemma floor_log2_less:
  assumes "0 < a" "a < pow2 k"
  shows "\<lfloor>log 2 a\<rfloor> < k"
proof -
  have "log 2 a < real_of_int k"
    using assms by (simp add: pow2_def log_less_iff)
  then show ?thesis by linarith
qed

lemma roundDouble_exact:
  assumes x: "x = of_int m * pow2 e"
    and m: "\<bar>m\<bar> < 2 ^ 53"
    and e: "- 1074 \<le> e"
    and b: "\<bar>x\<bar> < 2 ^ 1024"
  shows "roundDouble x = Fin x"
proof (cases "x = 0")
  case True
  then show ?thesis by (simp add: roundDouble_def)
next
  case False
  define a where "a = \<bar>x\<bar>"
  define e' where "e' = max (\<lfloor>log 2 a\<rfloor> - 52) (- 1074)"
  have a0: "0 < a" using False by (simp add: a_def)
  have "\<bar>pow2 e\<bar> = pow2 e" using pow2_pos [of e] by linarith
  then have am: "a = of_int \<bar>m\<bar> * pow2 e"
    by (simp add: a_def x abs_mult)
  have "of_int \<bar>m\<bar> < (2::real) ^ 53"
    using m by (metis of_int_less_iff of_int_numeral of_int_power)
  then have "a < 2 ^ 53 * pow2 e"
    unfolding am by (simp add: mult_strict_right_mono)
  also have "\<dots> = pow2 (53 + e)"
    by (simp add: pow2_add pow2_nat)
  finally have "\<lfloor>log 2 a\<rfloor> < 53 + e"
    using floor_log2_less [OF a0] by blast
  then have le: "e' \<le> e" using e by (simp add: e'_def)
  have "a / pow2 e' = of_int \<bar>m\<bar> * (pow2 e / pow2 e')"
    by (simp add: am)
  also have "\<dots> = of_int \<bar>m\<bar> * 2 ^ nat (e - e')"
    using le by (simp add: pow2_diff pow2_nat)
  also have "\<dots> = of_int (\<bar>m\<bar> * 2 ^ nat (e - e'))"
    by simp
  finally have q: "a / pow2 e' = of_int (\<bar>m\<bar> * 2 ^ nat (e - e'))" .
  have v: "of_int (roundHalfEven (a / pow2 e')) * pow2 e' = a"
  proof -
    have "of_int (roundHalfEven (a / pow2 e')) * pow2 e' = (a / pow2 e') * pow2 e'"
      unfolding q roundHalfEven_of_int ..
    moreover have "pow2 e' \<noteq> 0" using pow2_pos [of e'] by linarith
    ultimately show ?thesis by simp
  qed
  have "roundDouble x = (if 2 ^ 1024 \<le> a then (if x < 0 then NegInf else PosInf)
          else Fin (if x < 0 then - a else a))"
    using False v unfolding roundDouble_def a_def [symmetric] Let_def e'_def [symmetric]
    by simp
  moreover have "\<not> 2 ^ 1024 \<le> a" using b by (simp add: a_def)
  moreover have "(if x < 0 then - a else a) = x" by (simp add: a_def)
  ultimately show ?thesis by simp
qed

lemma roundDouble_of_int:
  assumes "\<bar>n\<bar> < 2 ^ 53"
  shows "roundDouble (of_int n) = Fin (of_int n)"
proof (rule roundDouble_exact [where m = n and e = 0])
  show "real_of_int n = of_int n * pow2 0" by (simp add: pow2_def)
  show "\<bar>n\<bar> < 2 ^ 53" by (rule assms)
  show "- 1074 \<le> (0::int)" by simp
  have "\<bar>real_of_int n\<bar> < 2 ^ 53"
    using assms by (metis of_int_abs of_int_less_iff of_int_numeral of_int_power)
  also have "(2::real) ^ 53 < 2 ^ 1024" by simp
  finally show "\<bar>real_of_int n\<bar> < 2 ^ 1024" .
qed

lemma roundDouble_numeral:
  "(numeral k :: int) < 2 ^ 53 \<Longrightarrow> roundDouble (numeral k) = Fin (numeral k)"
  using roundDouble_of_int [of "numeral k"] by simp

lemma roundDouble_neg_numeral:
  "(numeral k :: int) < 2 ^ 53 \<Longrightarrow> roundDouble (- numeral k) = Fin (- numeral k)"
  using roundDouble_of_int [of "- numeral k"] by simp

lemma roundDouble_0 [simp]: "roundDouble 0 = Fin 0"
  by (simp add: roundDouble_def)

lemma roundDouble_1 [simp]: "roundDouble 1 = Fin 1"
  using roundDouble_of_int [of 1] by simp

lemma roundDouble_half:
  assumes "\<bar>n\<bar> < 2 ^ 53"
  shows "roundDouble (of_int n / 2) = Fin (of_int n / 2)"
proof (rule roundDouble_exact [where m = n and e = "- 1"])
  show "real_of_int n / 2 = of_int n * pow2 (- 1)" by (simp add: pow2_def powr_minus_divide)
  show "\<bar>n\<bar> < 2 ^ 53" by (rule assms)
  show "- 1074 \<le> (- 1::int)" by simp
  have "\<bar>real_of_int n\<bar> < 2 ^ 53"
    using assms by (metis of_int_abs of_int_less_iff of_int_numeral of_int_power)
  then have "\<bar>real_of_int n / 2\<bar> < 2 ^ 53" by simp
  also have "(2::real) ^ 53 < 2 ^ 1024" by simp
  finally show "\<bar>real_of_int n / 2\<bar> < 2 ^ 1024" .
qed

lemma roundDouble_numeral_half:
  "(numeral k :: int) < 2 ^ 53 \<Longrightarrow> roundDouble (numeral k / 2) = Fin (numeral k / 2)"
  using roundDouble_half [of "numeral k"] by simp

lemma pow2_0 [simp]: "pow2 0 = 1"
  by (simp add: pow2_def)

lemma pow2_1 [simp]: "pow2 1 = 2"
  by (simp add: pow2_def)

lemma pow2_numeral: "pow2 (numeral k) = 2 ^ numeral k"
  using pow2_nat [of "numeral k"] by simp

lemma pow2_neg_numeral: "pow2 (- numeral k) = 1 / 2 ^ numeral k"
proof -
  have "pow2 (- numeral k) * pow2 (numeral k) = 1"
    using pow2_add [of "- numeral k" "numeral k"] by simp
  then show ?thesis
    by (simp add: pow2_numeral field_simps)
qed

lemma floor_log2_eq:
  assumes "pow2 E \<le> a" "a < pow2 (E + 1)"
  shows "\<lfloor>log 2 a\<rfloor> = E"
proof -
  have a0: "0 < a" using assms(1) pow2_pos [of E] by linarith
  have "real_of_int E \<le> log 2 a"
    using assms(1) a0 by (simp add: pow2_def le_log_iff)
  moreover have "log 2 a < real_of_int (E + 1)"
    using assms(2) a0 by (simp add: pow2_def log_less_iff)
  ultimately show ?thesis by linarith
qed

lemma roundDouble_binade:
  assumes "pow2 E \<le> \<bar>x\<bar>" "\<bar>x\<bar> < pow2 (E + 1)" "- 1022 \<le> E"
  shows "roundDouble x =
    (let v = of_int (roundHalfEven (\<bar>x\<bar> / pow2 (E - 52))) * pow2 (E - 52)
     in if 2 ^ 1024 \<le> v then (if x < 0 then NegInf else PosInf)
        else Fin (if x < 0 then - v else v))"
proof -
  have "0 < \<bar>x\<bar>" using assms(1) pow2_pos [of E] by linarith
  then have x0: "x \<noteq> 0" by simp
  have m: "max (\<lfloor>log 2 \<bar>x\<bar>\<rfloor> - 52) (- 1074) = E - 52"
    using floor_log2_eq [OF assms(1,2)] assms(3) by simp
  show ?thesis
    unfolding roundDouble_def Let_def m using x0 by (simp only: if_False)
qed

lemma pow2_minus_1 [simp]: "pow2 (- 1) = 1 / 2"
  by (simp add: pow2_def powr_minus_divide)

lemma roundHalfEven_ge_floor: "\<lfloor>q\<rfloor> \<le> roundHalfEven q"
  by (simp add: roundHalfEven_def Let_def)

text \<open>A result of magnitude \<open>2\<^sup>1\<^sup>0\<^sup>2\<^sup>4\<close> or more overflows.\<close>

lemma roundDouble_overflow:
  assumes "2 ^ 1024 \<le> \<bar>x\<bar>"
  shows "roundDouble x = (if x < 0 then NegInf else PosInf)"
proof -
  define L where "L = \<lfloor>log 2 \<bar>x\<bar>\<rfloor>"
  have a0: "0 < \<bar>x\<bar>"
  proof -
    have "(0::real) < 2 ^ 1024" by simp
    then show ?thesis using assms by linarith
  qed
  have x0: "x \<noteq> 0" using a0 by simp
  have "2 powr 1024 \<le> \<bar>x\<bar>"
    using assms powr_realpow [of 2 1024] by simp
  then have "1024 \<le> log 2 \<bar>x\<bar>"
    using a0 by (simp add: le_log_iff)
  then have L: "1024 \<le> L"
    unfolding L_def by linarith
  have "real_of_int L \<le> log 2 \<bar>x\<bar>"
    unfolding L_def by simp
  then have pL: "pow2 L \<le> \<bar>x\<bar>"
    using a0 by (simp add: pow2_def le_log_iff)
  have e: "max (L - 52) (- 1074) = L - 52" using L by simp
  have d: "pow2 L / pow2 (L - 52) = 2 ^ 52"
    by (simp add: pow2_diff pow2_numeral)
  have "pow2 L / pow2 (L - 52) \<le> \<bar>x\<bar> / pow2 (L - 52)"
    by (rule divide_right_mono [OF pL]) (rule less_imp_le [OF pow2_pos])
  then have "real_of_int (2 ^ 52) \<le> \<bar>x\<bar> / pow2 (L - 52)"
    using d by simp
  then have "2 ^ 52 \<le> \<lfloor>\<bar>x\<bar> / pow2 (L - 52)\<rfloor>"
    by (simp only: le_floor_iff)
  then have "2 ^ 52 \<le> roundHalfEven (\<bar>x\<bar> / pow2 (L - 52))"
    using roundHalfEven_ge_floor [of "\<bar>x\<bar> / pow2 (L - 52)"] by linarith
  then have "real_of_int (2 ^ 52) \<le> of_int (roundHalfEven (\<bar>x\<bar> / pow2 (L - 52)))"
    by (simp only: of_int_le_iff)
  then have "(2 ^ 52 :: real) \<le> of_int (roundHalfEven (\<bar>x\<bar> / pow2 (L - 52)))"
    by simp
  then have A: "2 ^ 52 * pow2 (L - 52)
             \<le> of_int (roundHalfEven (\<bar>x\<bar> / pow2 (L - 52))) * pow2 (L - 52)"
    by (rule mult_right_mono) (rule less_imp_le [OF pow2_pos])
  have B: "2 ^ 52 * pow2 (L - 52) = pow2 L"
    using pow2_add [of 52 "L - 52"] by (simp add: pow2_numeral)
  have C: "pow2 1024 \<le> pow2 L"
    unfolding pow2_def by (rule powr_mono) (use L in simp_all)
  have D: "pow2 1024 = 2 ^ 1024"
    by (simp add: pow2_numeral)
  have v: "2 ^ 1024 \<le> of_int (roundHalfEven (\<bar>x\<bar> / pow2 (L - 52))) * pow2 (L - 52)"
    using A B C D by (simp only:)
  show ?thesis
    unfolding roundDouble_def Let_def L_def [symmetric] e
    using x0 v by simp
qed

subsection \<open>Decimal digits and \<^verbatim>\<open>toFixed(2)\<close>\<close>

lemma decimalDigits_small: "n < 10 \<Longrightarrow> decimalDigits n = [digitChar n]"
  by (simp add: decimalDigits.simps)

lemma decimalDigits_step:
  "\<not> n < 10 \<Longrightarrow> decimalDigits n = decimalDigits (n div 10) @ [digitChar (n mod 10)]"
  by (subst decimalDigits.simps) simp

lemma less_10_cases:
  "(d::nat) < 10 \<Longrightarrow> d = 0 \<or> d = 1 \<or> d = 2 \<or> d = 3 \<or> d = 4 \<or> d = 5 \<or> d = 6 \<or> d = 7 \<or> d = 8 \<or> d = 9"
  by arith

lemma isDigit_digitChar: "d < 10 \<Longrightarrow> isDigit (digitChar d)"
  by (auto dest!: less_10_cases simp: isDigit_def digitChar_def)

lemma digitValue_digitChar: "d < 10 \<Longrightarrow> digitValue (digitChar d) = d"
  by (auto dest!: less_10_cases simp: digitValue_def digitChar_def)

lemma decimalDigits_all: "list_all isDigit (decimalDigits n)"
proof (induction n rule: decimalDigits.induct)
  case (1 n)
  show ?case
  proof (cases "n < 10")
    case True
    then show ?thesis by (simp add: decimalDigits_small isDigit_digitChar)
  next
    case False
    then show ?thesis using "1.IH" by (simp add: decimalDigits_step isDigit_digitChar)
  qed
qed

lemma decimalDigits_not_Nil: "decimalDigits n \<noteq> []"
  by (cases "n < 10") (simp_all add: decimalDigits_small decimalDigits_step)

lemma digitsValue_snoc: "digitsValue (ds @ [c]) = 10 * digitsValue ds + digitValue c"
  by (simp add: digitsValue_def)

lemma digitsValue_decimalDigits: "digitsValue (decimalDigits n) = n"
proof (induction n rule: decimalDigits.induct)
  case (1 n)
  show ?case
  proof (cases "n < 10")
    case True
    then show ?thesis by (simp add: decimalDigits_small digitsValue_def digitValue_digitChar)
  next
    case False
    then show ?thesis using "1.IH"
      by (simp add: decimalDigits_step digitsValue_snoc digitValue_digitChar)
  qed
qed

text \<open>
  Below \<open>10\<^sup>2\<^sup>1\<close>, \<^verbatim>\<open>toFixed(2)\<close> prints the hundredths nearest to the magnitude
  with exactly two fractional digits, after the sign.
\<close>

lemma pad_split:
  "(let m = decimalDigits n; k = length m;
        m' = (if k \<le> 2 then replicate (2 + 1 - k) (CHR ''0'') @ m else m);
        k' = (if k \<le> 2 then 2 + 1 else k)
    in take (k' - 2) m' @ ''.'' @ drop (k' - 2) m') = fixed2 n"
proof -
  consider "n < 10" | "10 \<le> n" "n < 100" | "100 \<le> n" by linarith
  then show ?thesis
  proof cases
    case 1
    then show ?thesis
      by (simp add: fixed2_def decimalDigits_small digitChar_def numeral_2_eq_2)
  next
    case 2
    then have a: "decimalDigits n = [digitChar (n div 10), digitChar (n mod 10)]"
      by (simp add: decimalDigits_step decimalDigits_small)
    have b: "n div 100 = 0" "n div 10 mod 10 = n div 10" using 2 by simp_all
    show ?thesis
      by (simp add: fixed2_def a b decimalDigits_small digitChar_def)
  next
    case 3
    then have a: "decimalDigits n = decimalDigits (n div 100) @ [digitChar (n div 10 mod 10), digitChar (n mod 10)]"
      by (simp add: decimalDigits_step [of n] decimalDigits_step [of "n div 10"] div_mult2_eq [symmetric])
    have "length (decimalDigits (n div 100)) > 0" using decimalDigits_not_Nil by simp
    then show ?thesis
      by (simp add: fixed2_def a Let_def)
  qed
qed

lemma toFixed_2_nonneg:
  assumes "0 \<le> a" "a < 10 ^ 21"
  shows "toFixed ts (Fin a) 2 = fixed2 (nat \<lfloor>a * 100 + 1 / 2\<rfloor>)"
  using assms pad_split [of "nat \<lfloor>a * 100 + 1 / 2\<rfloor>"]
  by (simp add: toFixed_def Let_def)

lemma toFixed_2_neg:
  assumes "a < 0" "- (10 ^ 21) < a"
  shows "toFixed ts (Fin a) 2 = ''-'' @ fixed2 (nat \<lfloor>- a * 100 + 1 / 2\<rfloor>)"
  using assms pad_split [of "nat \<lfloor>- a * 100 + 1 / 2\<rfloor>"]
  by (simp add: toFixed_def Let_def)

lemma toFixed_2:
  assumes "\<bar>q\<bar> < 10 ^ 21"
  shows "toFixed ts (Fin q) 2
         = (if q < 0 then ''-'' else []) @ fixed2 (nat \<lfloor>\<bar>q\<bar> * 100 + 1 / 2\<rfloor>)"
proof (cases "q < 0")
  case True
  then show ?thesis using assms toFixed_2_neg [of q ts] by simp
next
  case False
  then show ?thesis using assms toFixed_2_nonneg [of q ts] by simp
qed

subsection \<open>\<^verbatim>\<open>parseFloat\<close> reads back what \<^verbatim>\<open>toFixed(2)\<close> prints\<close>

lemma isDigit_facts:
  assumes "isDigit c"
  shows "\<not> isWhiteSpace c" "c \<noteq> CHR ''-''" "c \<noteq> CHR ''+''" "c \<noteq> CHR ''I''" "c \<noteq> CHR ''.''"
  using assms by (auto simp: isDigit_def isWhiteSpace_def)

lemma not_isDigit_point: "\<not> isDigit (CHR ''.'')"
  by (simp add: isDigit_def)

lemma takeWhile_digits:
  assumes "list_all isDigit ds" "\<not> isDigit c"
  shows "takeWhile isDigit (ds @ c # r) = ds" "dropWhile isDigit (ds @ c # r) = c # r"
  using assms by (induction ds) simp_all

lemma takeWhile_all_digits:
  assumes "list_all isDigit ds"
  shows "takeWhile isDigit ds = ds" "dropWhile isDigit ds = []"
  using assms by (induction ds) simp_all

lemma strUnsignedDecimal_fixed:
  assumes "ds \<noteq> []" "list_all isDigit ds" "list_all isDigit fs"
  shows "strUnsignedDecimal (ds @ ''.'' @ fs)
         = Some (real (digitsValue ds) + real (digitsValue fs) / 10 ^ length fs)"
proof -
  have tw: "takeWhile isDigit (ds @ ''.'' @ fs) = ds"
           "dropWhile isDigit (ds @ ''.'' @ fs) = CHR ''.'' # fs"
    using takeWhile_digits [OF assms(2) not_isDigit_point] by simp_all
  show ?thesis
    unfolding strUnsignedDecimal_def tw
    using assms(1) by (simp add: takeWhile_all_digits [OF assms(3)] exponentPart_def scale10_def)
qed

lemma parseFloat_fixed:
  assumes "ds \<noteq> []" "list_all isDigit ds" "list_all isDigit fs"
  shows "parseFloat (ds @ ''.'' @ fs)
         = roundDouble (real (digitsValue ds) + real (digitsValue fs) / 10 ^ length fs)"
    and "parseFloat (''-'' @ ds @ ''.'' @ fs)
         = roundDouble (- (real (digitsValue ds) + real (digitsValue fs) / 10 ^ length fs))"
proof -
  obtain h t where ds: "ds = h # t" using assms(1) by (cases ds) auto
  have h: "isDigit h" using assms(2) ds by simp
  define u where "u = ds @ ''.'' @ fs"
  have u: "u = h # (t @ ''.'' @ fs)" by (simp add: ds u_def)
  have inf: "take 8 u \<noteq> ''Infinity''"
    using isDigit_facts(4) [OF h] by (simp add: u)
  have ws: "dropWhile isWhiteSpace u = u"
    using isDigit_facts(1) [OF h] by (simp add: u)
  have ws': "dropWhile isWhiteSpace (''-'' @ u) = CHR ''-'' # u"
    by (simp add: isWhiteSpace_def)
  have neg: "(case u of [] \<Rightarrow> False | c # r \<Rightarrow> c = CHR ''-'') = False"
    using isDigit_facts(2) [OF h] by (simp add: u)
  have uns: "(case u of [] \<Rightarrow> [] | c # r \<Rightarrow> if c = CHR ''-'' \<or> c = CHR ''+'' then r else u) = u"
    using isDigit_facts(2,3) [OF h] by (simp add: u)
  have val: "strUnsignedDecimal u = Some (real (digitsValue ds) + real (digitsValue fs) / 10 ^ length fs)"
    unfolding u_def by (rule strUnsignedDecimal_fixed [OF assms])
  have "parseFloat u = roundDouble (real (digitsValue ds) + real (digitsValue fs) / 10 ^ length fs)"
    unfolding parseFloat_def Let_def ws neg uns
    by (simp add: inf val)
  then show "parseFloat (ds @ ''.'' @ fs) = roundDouble (real (digitsValue ds) + real (digitsValue fs) / 10 ^ length fs)"
    by (simp add: u_def)
  have "parseFloat (''-'' @ u) = roundDouble (- (real (digitsValue ds) + real (digitsValue fs) / 10 ^ length fs))"
    unfolding parseFloat_def Let_def ws'
    by (simp add: inf val)
  then show "parseFloat (''-'' @ ds @ ''.'' @ fs) = roundDouble (- (real (digitsValue ds) + real (digitsValue fs) / 10 ^ length fs))"
    by (simp add: u_def)
qed

lemma digitsValue_two: 
  "b < 10 \<Longrightarrow> c < 10 \<Longrightarrow> digitsValue [digitChar b, digitChar c] = 10 * b + c"
  by (simp add: digitsValue_def digitValue_digitChar)

lemma hundredths_value:
  "real (n div 100) + real (10 * (n div 10 mod 10) + n mod 10) / 100 = real n / 100"
proof -
  have "n mod (10 * 10) = 10 * (n div 10 mod 10) + n mod 10"
    by (rule mod_mult2_eq)
  then have "n mod 100 = 10 * (n div 10 mod 10) + n mod 10" by simp
  moreover have "n = 100 * (n div 100) + n mod 100" by simp
  ultimately have "n = 100 * (n div 100) + (10 * (n div 10 mod 10) + n mod 10)" by simp
  then have "real n = real (100 * (n div 100) + (10 * (n div 10 mod 10) + n mod 10))"
    by simp
  also have "\<dots> = 100 * real (n div 100) + real (10 * (n div 10 mod 10) + n mod 10)"
    by (simp only: of_nat_add of_nat_mult of_nat_numeral)
  finally have "real n / 100 = (100 * real (n div 100) + real (10 * (n div 10 mod 10) + n mod 10)) / 100"
    by simp
  also have "\<dots> = real (n div 100) + real (10 * (n div 10 mod 10) + n mod 10) / 100"
    by (simp only: add_divide_distrib)
  finally show ?thesis by simp
qed

lemma parseFloat_fixed2:
  "parseFloat (fixed2 n) = roundDouble (real n / 100)"
  "parseFloat (''-'' @ fixed2 n) = roundDouble (- (real n / 100))"
proof -
  let ?fs = "[digitChar (n div 10 mod 10), digitChar (n mod 10)]"
  have fs: "list_all isDigit ?fs"
    by (simp add: isDigit_digitChar)
  have len: "(10::real) ^ length ?fs = 100" by simp
  have dv: "digitsValue ?fs = 10 * (n div 10 mod 10) + n mod 10"
    by (rule digitsValue_two) simp_all
  have v: "real (digitsValue (decimalDigits (n div 100))) + real (digitsValue ?fs) / 10 ^ length ?fs
      = real n / 100"
    unfolding len dv digitsValue_decimalDigits by (rule hundredths_value)
  show "parseFloat (fixed2 n) = roundDouble (real n / 100)"
    unfolding fixed2_def
    using parseFloat_fixed(1) [OF decimalDigits_not_Nil decimalDigits_all fs, of "n div 100"]
    by (simp only: v)
  show "parseFloat (''-'' @ fixed2 n) = roundDouble (- (real n / 100))"
    unfolding fixed2_def
    using parseFloat_fixed(2) [OF decimalDigits_not_Nil decimalDigits_all fs, of "n div 100"]
    by (simp only: v)
qed

lemma parseFloat_toFixed_2:
  assumes "\<bar>q\<bar> < 10 ^ 21"
  shows "parseFloat (toFixed ts (Fin q) 2) = roundDouble (roundHundredths q)"
proof (cases "q < 0")
  case True
  have "0 \<le> \<lfloor>- q * 100 + 1 / 2\<rfloor>" using True by simp
  then have "real (nat \<lfloor>- q * 100 + 1 / 2\<rfloor>) = real_of_int \<lfloor>- q * 100 + 1 / 2\<rfloor>" by simp
  then show ?thesis
    using True parseFloat_fixed2(2) [of "nat \<lfloor>- q * 100 + 1 / 2\<rfloor>"]
    by (simp add: toFixed_2 [OF assms] roundHundredths_def)
next
  case False
  have "0 \<le> \<lfloor>q * 100 + 1 / 2\<rfloor>" using False by simp
  then have "real (nat \<lfloor>q * 100 + 1 / 2\<rfloor>) = real_of_int \<lfloor>q * 100 + 1 / 2\<rfloor>" by simp
  then show ?thesis
    using False parseFloat_fixed2(1) [of "nat \<lfloor>q * 100 + 1 / 2\<rfloor>"]
    by (simp add: toFixed_2 [OF assms] roundHundredths_def)
qed

lemma hasTwoFractionDigits_fixed2:
  "hasTwoFractionDigits (fixed2 n)" "hasTwoFractionDigits (''-'' @ fixed2 n)"
proof -
  let ?ds = "decimalDigits (n div 100)"
  let ?fs = "[digitChar (n div 10 mod 10), digitChar (n mod 10)]"
  obtain h t where ds: "?ds = h # t" using decimalDigits_not_Nil [of "n div 100"] by (cases ?ds) auto
  have h: "isDigit h" using decimalDigits_all [of "n div 100"] ds by simp
  have tw: "takeWhile isDigit (?ds @ CHR ''.'' # ?fs) = ?ds"
           "dropWhile isDigit (?ds @ CHR ''.'' # ?fs) = CHR ''.'' # ?fs"
    using takeWhile_digits [OF decimalDigits_all not_isDigit_point] by simp_all
  have f: "fixed2 n = ?ds @ CHR ''.'' # ?fs" by (simp add: fixed2_def)
  have c: "(case fixed2 n of [] \<Rightarrow> [] | c # r \<Rightarrow> if c = CHR ''-'' then r else fixed2 n) = fixed2 n"
    using isDigit_facts(2) [OF h] by (simp add: f ds)
  show "hasTwoFractionDigits (fixed2 n)"
    unfolding hasTwoFractionDigits_def c Let_def
    unfolding f tw
    using decimalDigits_not_Nil by (simp add: isDigit_digitChar)
  show "hasTwoFractionDigits (''-'' @ fixed2 n)"
    unfolding hasTwoFractionDigits_def Let_def
    apply simp
    unfolding f tw
    using decimalDigits_not_Nil by (simp add: isDigit_digitChar)
qed

subsection \<open>The loops of the aggregator as sums\<close>

lemma foldl_cgpaStep:
  "foldl cgpaStep (a, b) entries
   = (foldl jsAdd a (map (\<lambda>entry. jsMul (toNumber (computeEntryNumeric entry)) (creditsOr3 entry))
                       entries),
      foldl jsAdd b (map creditsOr3 entries))"
proof (induction entries arbitrary: a b)
  case Nil
  show ?case by simp
next
  case (Cons e es)
  have step: "cgpaStep (a, b) e
     = (jsAdd a (jsMul (toNumber (computeEntryNumeric e)) (creditsOr3 e)), jsAdd b (creditsOr3 e))"
    by (simp add: cgpaStep_def Let_def)
  show ?case
    using Cons.IH [of "jsAdd a (jsMul (toNumber (computeEntryNumeric e)) (creditsOr3 e))" "jsAdd b (creditsOr3 e)"]
    by (simp add: step)
qed

lemma computeAverageCGPA_nonempty:
  assumes "entries \<noteq> []"
  shows "computeAverageCGPA ts entries
         = toFixed ts (jsDiv (totalWeightedPoints entries) (totalCredits entries)) 2"
  using assms
  by (simp add: computeAverageCGPA_def foldl_cgpaStep Let_def totalWeightedPoints_def
      totalCredits_def jsSum_def)

lemma scaleAverage_foldl:
  "(let totalWeight = foldl (\<lambda>sum a. jsAdd sum (weight a)) (Fin 0) as;
        weightedSum = foldl (\<lambda>sum a. jsAdd sum (jsMul (gradeOrZero a) (weight a))) (Fin 0) as
    in if jsGt totalWeight (Fin 0) then jsDiv weightedSum totalWeight else Fin 0)
   = scaleAverage as"
proof -
  have c: "\<And>a. contribution a = jsMul (gradeOrZero a) (weight a)"
    by (simp add: contribution_def gradeOrZero_def)
  show ?thesis
    unfolding scaleAverage_def jsSum_def foldl_map c by (rule refl)
qed

lemma computeEntryNumeric_scale_eq:
  assumes "entryType entry = Scale"
  shows "computeEntryNumeric entry
         = getProp letterToNumeric (percentageToLetter (scaleAverage (assignmentsOrEmpty entry)))"
proof -
  have "computeEntryNumeric entry
        = nullish (getProp letterToNumeric (percentageToLetter
            (let totalWeight = foldl (\<lambda>sum a. jsAdd sum (weight a)) (Fin 0) (assignmentsOrEmpty entry);
                 weightedSum = foldl (\<lambda>sum a. jsAdd sum (jsMul (gradeOrZero a) (weight a))) (Fin 0)
                                 (assignmentsOrEmpty entry)
             in if jsGt totalWeight (Fin 0) then jsDiv weightedSum totalWeight else Fin 0))) (Fin 0)"
    using assms by (simp add: computeEntryNumeric_def Let_def)
  then show ?thesis
    by (simp only: scaleAverage_foldl nullish_percentageToLetter)
qed

text \<open>
  A sum of natural numbers that stays below \<open>2\<^sup>5\<^sup>3\<close> is not rounded: it is the sum
  of the list.
\<close>

lemma foldl_jsAdd_nat:
  "a + sum_list ns < 2 ^ 53
   \<Longrightarrow> foldl jsAdd (Fin (real a)) (map (\<lambda>n. Fin (real n)) ns) = Fin (real (a + sum_list ns))"
proof (induction ns arbitrary: a)
  case Nil
  show ?case by simp
next
  case (Cons n ns)
  have "a + n < 2 ^ 53" using Cons.prems by simp
  then have "\<bar>int (a + n)\<bar> < 2 ^ 53" by simp
  then have "roundDouble (of_int (int (a + n))) = Fin (of_int (int (a + n)))"
    by (rule roundDouble_of_int)
  then have s: "roundDouble (real a + real n) = Fin (real (a + n))" by simp
  have "a + n + sum_list ns < 2 ^ 53" using Cons.prems by (simp add: add.assoc)
  from Cons.IH [OF this] show ?case
    by (simp add: s add.assoc)
qed

lemma jsSum_nat:
  "sum_list ns < 2 ^ 53 \<Longrightarrow> jsSum (map (\<lambda>n. Fin (real n)) ns) = Fin (real (sum_list ns))"
  using foldl_jsAdd_nat [of 0 ns] by (simp add: jsSum_def)

subsection \<open>The numeric value of a scale entry\<close>



text \<open>
  Claim C10. In the scale branch of \<^verbatim>\<open>computeEntryNumeric\<close> the letter comes from
  \<^verbatim>\<open>percentageToLetter\<close>, and every letter it returns is an own key of the table:
  the read is never \<^verbatim>\<open>undefined\<close>, so \<^verbatim>\<open>?? 0\<close> returns the table value whatever
  its default is, and the result of the branch is the table value itself.
\<close>

theorem scale_fallback_unreachable:
  "percentageToLetter p \<in> set (map fst letterToNumeric)
   \<and> getProp letterToNumeric (percentageToLetter p) \<noteq> Undefined
   \<and> nullish (getProp letterToNumeric (percentageToLetter p)) d
        = getProp letterToNumeric (percentageToLetter p)
   \<and> computeEntryNumeric (entry\<lparr>entryType := Scale\<rparr>)
        = getProp letterToNumeric (percentageToLetter (scaleAverage (assignmentsOrEmpty entry)))"
proof -
  have k: "percentageToLetter p \<in> set (map fst letterToNumeric)"
    by (simp add: percentageToLetter_def letterToNumeric_def)
  have a: "assignmentsOrEmpty (entry\<lparr>entryType := Scale\<rparr>) = assignmentsOrEmpty entry"
    by (simp add: assignmentsOrEmpty_def)
  have c: "computeEntryNumeric (entry\<lparr>entryType := Scale\<rparr>)
        = getProp letterToNumeric (percentageToLetter (scaleAverage (assignmentsOrEmpty entry)))"
    using computeEntryNumeric_scale_eq [of "entry\<lparr>entryType := Scale\<rparr>"] by (simp add: a)
  show ?thesis
    using k c by (simp add: getProp_percentageToLetter)
qed

subsection \<open>The range of the numeric value\<close>

text \<open>
  For a scale entry, and for a final-grade entry whose letter is not a property name of
  \<^verbatim>\<open>Object.prototype\<close>, the numeric value is one of the integers 0 to 10.
\<close>

lemma computeEntryNumeric_range:
  assumes "entryType entry = Scale \<or> finalGradeOrF entry \<notin> set objectPrototypeKeys"
  shows "\<exists>n::nat. computeEntryNumeric entry = Number (Fin (real n)) \<and> n \<le> 10"
proof (cases "entryType entry")
  case Scale
  then show ?thesis
    using thresholdsPassed_le
    by (auto simp add: computeEntryNumeric_scale_eq getProp_thresholdsPassed)
next
  case Final
  then have k: "finalGradeOrF entry \<notin> set objectPrototypeKeys" using assms by simp
  have c: "computeEntryNumeric entry = nullish (getProp letterToNumeric (finalGradeOrF entry)) (Fin 0)"
    using Final by (simp add: computeEntryNumeric_def)
  show ?thesis
  proof (cases "finalGradeOrF entry \<in> set (map fst letterToNumeric)")
    case True
    from getProp_own_key [OF True] show ?thesis by (auto simp add: c)
  next
    case False
    from getProp_unknown_key [OF False k] show ?thesis
      by (intro exI [of _ 0]) (simp add: c)
  qed
qed

subsection \<open>The credit-weighted average\<close>

lemma two_entries_points:
  "totalWeightedPoints [finalEntry ''2024'' ''Fall'' ''A'' (Fin 3),
                        finalEntry ''2024'' ''Fall'' ''B'' (Fin 3)] = Fin 45"
  "totalCredits [finalEntry ''2024'' ''Fall'' ''A'' (Fin 3),
                 finalEntry ''2024'' ''Fall'' ''B'' (Fin 3)] = Fin 6"
  "computeEntryNumeric (finalEntry ''2024'' ''Fall'' ''A'' (Fin 3)) = Number (Fin 9)"
  "computeEntryNumeric (finalEntry ''2024'' ''Fall'' ''B'' (Fin 3)) = Number (Fin 6)"
  by (simp_all add: totalWeightedPoints_def totalCredits_def jsSum_def finalEntry_def
      creditsOr3_def computeEntryNumeric_def finalGradeOrF_def getProp_def letterToNumeric_def
      roundDouble_numeral)

lemma fixed2_750: "fixed2 750 = ''7.50''"
  by (simp add: fixed2_def decimalDigits_small digitChar_def)

lemma E_D_points:
  "totalWeightedPoints [finalEntry ''2024'' ''Fall'' ''E'' (Fin 39),
                        finalEntry ''2024'' ''Fall'' ''D'' (Fin 1)] = Fin 41"
  "totalCredits [finalEntry ''2024'' ''Fall'' ''E'' (Fin 39),
                 finalEntry ''2024'' ''Fall'' ''D'' (Fin 1)] = Fin 40"
  by (simp_all add: totalWeightedPoints_def totalCredits_def jsSum_def finalEntry_def
      creditsOr3_def computeEntryNumeric_def finalGradeOrF_def getProp_def letterToNumeric_def
      roundDouble_numeral)

text \<open>
  The binary64 value of \<open>41 / 40\<close>: in \<open>[1, 2)\<close> the numbers are the multiples of
  \<open>2\<^sup>-\<^sup>5\<^sup>2\<close>, and the nearest to \<open>41 / 40\<close> is \<open>4616189618054758 / 2\<^sup>5\<^sup>2\<close>.
\<close>

lemma roundDouble_41_40: "roundDouble (41 / 40) = Fin (2308094809027379 / 2251799813685248)"
proof -
  have "roundDouble (41 / 40) =
    (let v = of_int (roundHalfEven (\<bar>41 / 40\<bar> / pow2 (0 - 52))) * pow2 (0 - 52)
     in if 2 ^ 1024 \<le> v then (if (41 / 40 :: real) < 0 then NegInf else PosInf)
        else Fin (if (41 / 40 :: real) < 0 then - v else v))"
    by (rule roundDouble_binade) simp_all
  moreover have "roundHalfEven (\<bar>41 / 40\<bar> / pow2 (0 - 52)) = 4616189618054758"
    by (simp add: pow2_neg_numeral roundHalfEven_def)
  ultimately show ?thesis
    by (simp add: pow2_neg_numeral)
qed

lemma fixed2_102: "fixed2 102 = ''1.02''"
  by (simp add: fixed2_def decimalDigits_small digitChar_def)

text \<open>
  Claim C2, as stated, fails: for every non-empty list \<^verbatim>\<open>computeAverageCGPA\<close> is to
  return the quotient of \<open>\<Sigma> computeEntryNumeric(entry) \<times> credits(entry)\<close> by
  \<open>\<Sigma> credits(entry)\<close> with exactly two fractional digits. Two entries with the grade
  \<open>A\<close> and the credits 3 and -3 have the totals 0 and 0; the code divides 0 by 0 and
  returns the string \<^verbatim>\<open>"NaN"\<close>, which has no fractional digits.
\<close>

theorem computeAverageCGPA_zero_credits_counterexample:
  "[finalEntry ''2024'' ''Fall'' ''A'' (Fin 3), finalEntry ''2024'' ''Fall'' ''A'' (Fin (- 3))] \<noteq> []
   \<and> totalWeightedPoints [finalEntry ''2024'' ''Fall'' ''A'' (Fin 3),
                           finalEntry ''2024'' ''Fall'' ''A'' (Fin (- 3))] = Fin 0
   \<and> totalCredits [finalEntry ''2024'' ''Fall'' ''A'' (Fin 3),
                    finalEntry ''2024'' ''Fall'' ''A'' (Fin (- 3))] = Fin 0
   \<and> computeAverageCGPA (\<lambda>r. [])
        [finalEntry ''2024'' ''Fall'' ''A'' (Fin 3), finalEntry ''2024'' ''Fall'' ''A'' (Fin (- 3))]
      = ''NaN''
   \<and> \<not> hasTwoFractionDigits
         (computeAverageCGPA (\<lambda>r. [])
           [finalEntry ''2024'' ''Fall'' ''A'' (Fin 3),
            finalEntry ''2024'' ''Fall'' ''A'' (Fin (- 3))])"
proof -
  have p: "totalWeightedPoints [finalEntry ''2024'' ''Fall'' ''A'' (Fin 3),
                                finalEntry ''2024'' ''Fall'' ''A'' (Fin (- 3))] = Fin 0"
          "totalCredits [finalEntry ''2024'' ''Fall'' ''A'' (Fin 3),
                         finalEntry ''2024'' ''Fall'' ''A'' (Fin (- 3))] = Fin 0"
    by (simp_all add: totalWeightedPoints_def totalCredits_def jsSum_def finalEntry_def
      creditsOr3_def computeEntryNumeric_def finalGradeOrF_def getProp_def letterToNumeric_def
      roundDouble_numeral roundDouble_neg_numeral)
  have c: "computeAverageCGPA (\<lambda>r. [])
             [finalEntry ''2024'' ''Fall'' ''A'' (Fin 3),
              finalEntry ''2024'' ''Fall'' ''A'' (Fin (- 3))] = ''NaN''"
    by (simp add: computeAverageCGPA_nonempty p jsInfinity_def toFixed_def)
  show ?thesis
    by (simp add: p c) (simp add: hasTwoFractionDigits_def isDigit_def)
qed

text \<open>
  Claim C2, amended. For every non-empty list of entries whose quotient of
  \<open>\<Sigma> computeEntryNumeric(entry) \<times> credits(entry)\<close> by \<open>\<Sigma> credits(entry)\<close>, computed
  in the program's binary64 arithmetic, is a finite number \<open>q\<close> of magnitude below
  \<open>10\<^sup>2\<^sup>1\<close>, \<^verbatim>\<open>computeAverageCGPA\<close> returns \<open>q\<close> rounded to the nearest hundredth
  and printed with exactly two fractional digits: a minus sign when \<open>q < 0\<close>, the
  integer digits, a point and two digits; read back as a number the string is the
  binary64 value of the rounded \<open>q\<close>. Here \<open>credits(entry)\<close> is 3 when the field is
  absent or falsy (0 and \<^verbatim>\<open>NaN\<close>), and the field itself in every other case.
\<close>

theorem computeAverageCGPA_quotient:
  assumes "entries \<noteq> []"
    and "jsDiv (totalWeightedPoints entries) (totalCredits entries) = Fin q"
    and "\<bar>q\<bar> < 10 ^ 21"
  shows "computeAverageCGPA numberToString entries
           = (if q < 0 then ''-'' else []) @ fixed2 (nat \<lfloor>\<bar>q\<bar> * 100 + 1 / 2\<rfloor>)
   \<and> hasTwoFractionDigits (computeAverageCGPA numberToString entries)
   \<and> parseFloat (computeAverageCGPA numberToString entries) = roundDouble (roundHundredths q)
   \<and> creditsOr3 (entry\<lparr>credits := None\<rparr>) = Fin 3
   \<and> creditsOr3 (entry\<lparr>credits := Some c\<rparr>) = (if c = Fin 0 \<or> c = NaN then Fin 3 else c)"
proof -
  have a: "computeAverageCGPA numberToString entries = toFixed numberToString (Fin q) 2"
    using computeAverageCGPA_nonempty [OF assms(1)] assms(2) by simp
  have b: "toFixed numberToString (Fin q) 2
             = (if q < 0 then ''-'' else []) @ fixed2 (nat \<lfloor>\<bar>q\<bar> * 100 + 1 / 2\<rfloor>)"
    by (rule toFixed_2 [OF assms(3)])
  have c: "hasTwoFractionDigits
             ((if q < 0 then ''-'' else []) @ fixed2 (nat \<lfloor>\<bar>q\<bar> * 100 + 1 / 2\<rfloor>))"
    using hasTwoFractionDigits_fixed2 by simp
  have d: "parseFloat (toFixed numberToString (Fin q) 2) = roundDouble (roundHundredths q)"
    by (rule parseFloat_toFixed_2 [OF assms(3)])
  have e: "creditsOr3 (entry\<lparr>credits := Some c\<rparr>) = (if c = Fin 0 \<or> c = NaN then Fin 3 else c)"
    by (cases c) (simp_all add: creditsOr3_def)
  show ?thesis
    using b c d e by (simp add: a creditsOr3_def)
qed

text \<open>
  The example of the claim: two entries with credits 3 each and the numeric values 9
  and 6 give the quotient 7.5 and the string \<^verbatim>\<open>"7.50"\<close>. A quotient that binary64
  cannot hold is rounded before it is printed: the letters \<open>E\<close> with 39 credits and \<open>D\<close>
  with 1 credit give \<open>41 / 40\<close>, whose binary64 value \<open>2308094809027379 / 2\<^sup>5\<^sup>1\<close> lies
  below 1.025, and the string is \<^verbatim>\<open>"1.02"\<close>.
\<close>

theorem computeAverageCGPA_quotient_witness:
  "[finalEntry ''2024'' ''Fall'' ''A'' (Fin 3), finalEntry ''2024'' ''Fall'' ''B'' (Fin 3)] \<noteq> []
   \<and> computeEntryNumeric (finalEntry ''2024'' ''Fall'' ''A'' (Fin 3)) = Number (Fin 9)
   \<and> computeEntryNumeric (finalEntry ''2024'' ''Fall'' ''B'' (Fin 3)) = Number (Fin 6)
   \<and> jsDiv (totalWeightedPoints [finalEntry ''2024'' ''Fall'' ''A'' (Fin 3),
                                  finalEntry ''2024'' ''Fall'' ''B'' (Fin 3)])
        (totalCredits [finalEntry ''2024'' ''Fall'' ''A'' (Fin 3),
                       finalEntry ''2024'' ''Fall'' ''B'' (Fin 3)]) = Fin 7.5
   \<and> \<bar>7.5 :: real\<bar> < 10 ^ 21
   \<and> computeAverageCGPA (\<lambda>r. [])
        [finalEntry ''2024'' ''Fall'' ''A'' (Fin 3), finalEntry ''2024'' ''Fall'' ''B'' (Fin 3)]
      = ''7.50''
   \<and> parseFloat (computeAverageCGPA (\<lambda>r. [])
        [finalEntry ''2024'' ''Fall'' ''A'' (Fin 3), finalEntry ''2024'' ''Fall'' ''B'' (Fin 3)])
      = Fin 7.5
   \<and> jsDiv (totalWeightedPoints [finalEntry ''2024'' ''Fall'' ''E'' (Fin 39),
                                  finalEntry ''2024'' ''Fall'' ''D'' (Fin 1)])
        (totalCredits [finalEntry ''2024'' ''Fall'' ''E'' (Fin 39),
                       finalEntry ''2024'' ''Fall'' ''D'' (Fin 1)])
      = Fin (2308094809027379 / 2251799813685248)
   \<and> computeAverageCGPA (\<lambda>r. [])
        [finalEntry ''2024'' ''Fall'' ''E'' (Fin 39), finalEntry ''2024'' ''Fall'' ''D'' (Fin 1)]
      = ''1.02''
   \<and> creditsOr3 (finalEntry ''2024'' ''Fall'' ''A'' (Fin 4)) = Fin 4
   \<and> creditsOr3 (finalEntry ''2024'' ''Fall'' ''A'' (Fin 0)) = Fin 3"
proof -
  have q: "jsDiv (totalWeightedPoints [finalEntry ''2024'' ''Fall'' ''A'' (Fin 3),
                                       finalEntry ''2024'' ''Fall'' ''B'' (Fin 3)])
        (totalCredits [finalEntry ''2024'' ''Fall'' ''A'' (Fin 3),
                       finalEntry ''2024'' ''Fall'' ''B'' (Fin 3)]) = Fin 7.5"
    by (simp add: two_entries_points roundDouble_numeral_half)
  have n: "nat \<lfloor>\<bar>7.5 :: real\<bar> * 100 + 1 / 2\<rfloor> = 750" by simp
  have r: "roundHundredths (15 / 2) = 15 / 2" by (simp add: roundHundredths_def)
  have q': "jsDiv (totalWeightedPoints [finalEntry ''2024'' ''Fall'' ''E'' (Fin 39),
                                        finalEntry ''2024'' ''Fall'' ''D'' (Fin 1)])
        (totalCredits [finalEntry ''2024'' ''Fall'' ''E'' (Fin 39),
                       finalEntry ''2024'' ''Fall'' ''D'' (Fin 1)])
      = Fin (2308094809027379 / 2251799813685248)"
    by (simp add: E_D_points roundDouble_41_40)
  have n': "nat \<lfloor>\<bar>2308094809027379 / 2251799813685248 :: real\<bar> * 100 + 1 / 2\<rfloor> = 102"
    by simp
  have c4: "finalEntry ''2024'' ''Fall'' ''A'' (Fin 4)
            = (finalEntry ''2024'' ''Fall'' ''A'' (Fin 3))\<lparr>credits := Some (Fin 4)\<rparr>"
           "finalEntry ''2024'' ''Fall'' ''A'' (Fin 0)
            = (finalEntry ''2024'' ''Fall'' ''A'' (Fin 3))\<lparr>credits := Some (Fin 0)\<rparr>"
    by (simp_all add: finalEntry_def)
  have a: "computeAverageCGPA (\<lambda>r. [])
        [finalEntry ''2024'' ''Fall'' ''A'' (Fin 3), finalEntry ''2024'' ''Fall'' ''B'' (Fin 3)]
      = ''7.50''
    \<and> parseFloat (computeAverageCGPA (\<lambda>r. [])
        [finalEntry ''2024'' ''Fall'' ''A'' (Fin 3), finalEntry ''2024'' ''Fall'' ''B'' (Fin 3)])
      = Fin 7.5
    \<and> creditsOr3 (finalEntry ''2024'' ''Fall'' ''A'' (Fin 4)) = Fin 4"
    using computeAverageCGPA_quotient
      [where entries = "[finalEntry ''2024'' ''Fall'' ''A'' (Fin 3),
                         finalEntry ''2024'' ''Fall'' ''B'' (Fin 3)]"
        and q = "7.5" and numberToString = "\<lambda>r. []"
        and entry = "finalEntry ''2024'' ''Fall'' ''A'' (Fin 3)" and c = "Fin 4", OF _ q]
    by (auto simp add: n r fixed2_750 c4 roundDouble_numeral_half)
  have b: "computeAverageCGPA (\<lambda>r. [])
        [finalEntry ''2024'' ''Fall'' ''E'' (Fin 39), finalEntry ''2024'' ''Fall'' ''D'' (Fin 1)]
      = ''1.02''
    \<and> creditsOr3 (finalEntry ''2024'' ''Fall'' ''A'' (Fin 0)) = Fin 3"
    using computeAverageCGPA_quotient
      [where entries = "[finalEntry ''2024'' ''Fall'' ''E'' (Fin 39),
                         finalEntry ''2024'' ''Fall'' ''D'' (Fin 1)]"
        and q = "2308094809027379 / 2251799813685248" and numberToString = "\<lambda>r. []"
        and entry = "finalEntry ''2024'' ''Fall'' ''A'' (Fin 3)" and c = "Fin 0", OF _ q']
    by (auto simp add: n' fixed2_102 c4)
  show ?thesis
    using a b q q' by (auto simp add: two_entries_points)
qed

subsection \<open>Rounding and overflow in the two aggregators\<close>

text \<open>
  The numbers \<^verbatim>\<open>0.1\<close> and \<^verbatim>\<open>0.2\<close> of a program are the binary64 values of
  \<open>1 / 10\<close> and \<open>1 / 5\<close>: \<open>3602879701896397 / 2\<^sup>5\<^sup>5\<close> and
  \<open>3602879701896397 / 2\<^sup>5\<^sup>4\<close>.
\<close>

lemma roundDouble_tenth: "roundDouble (1 / 10) = Fin (3602879701896397 / 36028797018963968)"
proof -
  have "roundDouble (1 / 10) =
    (let v = of_int (roundHalfEven (\<bar>1 / 10\<bar> / pow2 ((- 4) - 52))) * pow2 ((- 4) - 52)
     in if 2 ^ 1024 \<le> v then (if (1 / 10 :: real) < 0 then NegInf else PosInf)
        else Fin (if (1 / 10 :: real) < 0 then - v else v))"
    by (rule roundDouble_binade) (simp_all add: pow2_numeral pow2_neg_numeral)
  moreover have "roundHalfEven (\<bar>1 / 10\<bar> / pow2 ((- 4) - 52)) = 7205759403792794"
    by (simp add: pow2_numeral pow2_neg_numeral roundHalfEven_def)
  ultimately show ?thesis
    by (simp add: pow2_numeral pow2_neg_numeral)
qed

lemma roundDouble_fifth: "roundDouble (1 / 5) = Fin (3602879701896397 / 18014398509481984)"
proof -
  have "roundDouble (1 / 5) =
    (let v = of_int (roundHalfEven (\<bar>1 / 5\<bar> / pow2 ((- 3) - 52))) * pow2 ((- 3) - 52)
     in if 2 ^ 1024 \<le> v then (if (1 / 5 :: real) < 0 then NegInf else PosInf)
        else Fin (if (1 / 5 :: real) < 0 then - v else v))"
    by (rule roundDouble_binade) (simp_all add: pow2_numeral pow2_neg_numeral)
  moreover have "roundHalfEven (\<bar>1 / 5\<bar> / pow2 ((- 3) - 52)) = 7205759403792794"
    by (simp add: pow2_numeral pow2_neg_numeral roundHalfEven_def)
  ultimately show ?thesis
    by (simp add: pow2_numeral pow2_neg_numeral)
qed

text \<open>
  Two assignments of grade 90 and of weights \<^verbatim>\<open>0.1\<close> and \<^verbatim>\<open>0.2\<close>: the sum of the
  weights is rounded up to \<^verbatim>\<open>0.30000000000000004\<close>, the two products are rounded to 9
  and 18, and the quotient of 27 by the sum of the weights is rounded to
  \<open>90 - 2\<^sup>-\<^sup>4\<^sup>6\<close> (\<^verbatim>\<open>89.99999999999999\<close>): the letter is \<open>A\<close> and the numeric value
  9, where the quotient of the exact sums would be 90.
\<close>

lemma roundDouble_weight_tenth:
  "roundDouble (3602879701896397 / 36028797018963968)
   = Fin (3602879701896397 / 36028797018963968)"
proof -
  have "roundDouble (3602879701896397 / 36028797018963968) =
    (let v = of_int (roundHalfEven (\<bar>3602879701896397 / 36028797018963968\<bar> / pow2 ((- 4) - 52))) * pow2 ((- 4) - 52)
     in if 2 ^ 1024 \<le> v then (if (3602879701896397 / 36028797018963968 :: real) < 0 then NegInf else PosInf)
        else Fin (if (3602879701896397 / 36028797018963968 :: real) < 0 then - v else v))"
    by (rule roundDouble_binade) (simp_all add: pow2_numeral pow2_neg_numeral)
  moreover have "roundHalfEven (\<bar>3602879701896397 / 36028797018963968\<bar> / pow2 ((- 4) - 52)) = 7205759403792794"
    by (simp add: pow2_numeral pow2_neg_numeral roundHalfEven_def)
  ultimately show ?thesis
    by (simp add: pow2_numeral pow2_neg_numeral)
qed

lemma roundDouble_weights_sum:
  "roundDouble (10808639105689191 / 36028797018963968)
   = Fin (1351079888211149 / 4503599627370496)"
proof -
  have "roundDouble (10808639105689191 / 36028797018963968) =
    (let v = of_int (roundHalfEven (\<bar>10808639105689191 / 36028797018963968\<bar> / pow2 ((- 2) - 52))) * pow2 ((- 2) - 52)
     in if 2 ^ 1024 \<le> v then (if (10808639105689191 / 36028797018963968 :: real) < 0 then NegInf else PosInf)
        else Fin (if (10808639105689191 / 36028797018963968 :: real) < 0 then - v else v))"
    by (rule roundDouble_binade) (simp_all add: pow2_numeral pow2_neg_numeral)
  moreover have "roundHalfEven (\<bar>10808639105689191 / 36028797018963968\<bar> / pow2 ((- 2) - 52)) = 5404319552844596"
    by (simp add: pow2_numeral pow2_neg_numeral roundHalfEven_def)
  ultimately show ?thesis
    by (simp add: pow2_numeral pow2_neg_numeral)
qed

lemma roundDouble_product_tenth: "roundDouble (162129586585337865 / 18014398509481984) = Fin 9"
proof -
  have "roundDouble (162129586585337865 / 18014398509481984) =
    (let v = of_int (roundHalfEven (\<bar>162129586585337865 / 18014398509481984\<bar> / pow2 (3 - 52))) * pow2 (3 - 52)
     in if 2 ^ 1024 \<le> v then (if (162129586585337865 / 18014398509481984 :: real) < 0 then NegInf else PosInf)
        else Fin (if (162129586585337865 / 18014398509481984 :: real) < 0 then - v else v))"
    by (rule roundDouble_binade) (simp_all add: pow2_numeral pow2_neg_numeral)
  moreover have "roundHalfEven (\<bar>162129586585337865 / 18014398509481984\<bar> / pow2 (3 - 52)) = 5066549580791808"
    by (simp add: pow2_numeral pow2_neg_numeral roundHalfEven_def)
  ultimately show ?thesis
    by (simp add: pow2_numeral pow2_neg_numeral)
qed

lemma roundDouble_product_fifth: "roundDouble (162129586585337865 / 9007199254740992) = Fin 18"
proof -
  have "roundDouble (162129586585337865 / 9007199254740992) =
    (let v = of_int (roundHalfEven (\<bar>162129586585337865 / 9007199254740992\<bar> / pow2 (4 - 52))) * pow2 (4 - 52)
     in if 2 ^ 1024 \<le> v then (if (162129586585337865 / 9007199254740992 :: real) < 0 then NegInf else PosInf)
        else Fin (if (162129586585337865 / 9007199254740992 :: real) < 0 then - v else v))"
    by (rule roundDouble_binade) (simp_all add: pow2_numeral pow2_neg_numeral)
  moreover have "roundHalfEven (\<bar>162129586585337865 / 9007199254740992\<bar> / pow2 (4 - 52)) = 5066549580791808"
    by (simp add: pow2_numeral pow2_neg_numeral roundHalfEven_def)
  ultimately show ?thesis
    by (simp add: pow2_numeral pow2_neg_numeral)
qed

lemma roundDouble_average:
  "roundDouble (121597189939003392 / 1351079888211149)
   = Fin (6333186975989759 / 70368744177664)"
proof -
  have "roundDouble (121597189939003392 / 1351079888211149) =
    (let v = of_int (roundHalfEven (\<bar>121597189939003392 / 1351079888211149\<bar> / pow2 (6 - 52))) * pow2 (6 - 52)
     in if 2 ^ 1024 \<le> v then (if (121597189939003392 / 1351079888211149 :: real) < 0 then NegInf else PosInf)
        else Fin (if (121597189939003392 / 1351079888211149 :: real) < 0 then - v else v))"
    by (rule roundDouble_binade) (simp_all add: pow2_numeral pow2_neg_numeral)
  moreover have "roundHalfEven (\<bar>121597189939003392 / 1351079888211149\<bar> / pow2 (6 - 52)) = 6333186975989759"
    by (simp add: pow2_numeral pow2_neg_numeral roundHalfEven_def)
  ultimately show ?thesis
    by (simp add: pow2_numeral pow2_neg_numeral)
qed

lemma scaleAverage_tenth_fifth:
  "scaleAverage [graded 90 (3602879701896397 / 36028797018963968), graded 90 (3602879701896397 / 18014398509481984)]
   = Fin (6333186975989759 / 70368744177664)"
  by (simp add: scaleAverage_def jsSum_def contribution_def graded_def
      roundDouble_weight_tenth roundDouble_weights_sum roundDouble_product_tenth
      roundDouble_product_fifth roundDouble_average roundDouble_numeral)

lemma computeEntryNumeric_tenth_fifth:
  "computeEntryNumeric
     (scaleEntry [graded 90 (3602879701896397 / 36028797018963968), graded 90 (3602879701896397 / 18014398509481984)])
   = Number (Fin 9)"
proof -
  have "computeEntryNumeric
     (scaleEntry [graded 90 (3602879701896397 / 36028797018963968), graded 90 (3602879701896397 / 18014398509481984)])
    = getProp letterToNumeric (percentageToLetter
        (scaleAverage [graded 90 (3602879701896397 / 36028797018963968), graded 90 (3602879701896397 / 18014398509481984)]))"
    using computeEntryNumeric_scale_eq
      [of "scaleEntry [graded 90 (3602879701896397 / 36028797018963968), graded 90 (3602879701896397 / 18014398509481984)]"]
    by (simp add: scaleEntry_def assignmentsOrEmpty_def)
  then show ?thesis
    unfolding scaleAverage_tenth_fifth
    by (simp add: percentageToLetter_def getProp_def letterToNumeric_def)
qed

text \<open>
  A sum or a product of \<open>2\<^sup>1\<^sup>0\<^sup>2\<^sup>4\<close> or more overflows to \<^verbatim>\<open>Infinity\<close>. With two
  assignments of grade 95 whose weights are numbers of at least \<open>2\<^sup>1\<^sup>0\<^sup>2\<^sup>3\<close>, both sums
  are \<^verbatim>\<open>Infinity\<close>, the average is \<^verbatim>\<open>NaN\<close>, the letter \<open>F\<close> and the numeric value
  0; one entry of grade \<open>A+\<close> with such a number of credits has the average
  \<^verbatim>\<open>"Infinity"\<close>. The number \<^verbatim>\<open>1e308\<close>, which is \<open>5010420900022432 \<times> 2\<^sup>9\<^sup>7\<^sup>1\<close>, is such
  a number.
\<close>

lemma scale_overflow:
  assumes "roundDouble w = Fin w" and "2 ^ 1023 \<le> w"
  shows "scaleAverage [graded 95 w, graded 95 w] = NaN"
    and "computeEntryNumeric (scaleEntry [graded 95 w, graded 95 w]) = Number (Fin 0)"
proof -
  have w0: "(0::real) < 2 ^ 1023" by simp
  have "(2::real) ^ 1024 = 2 * 2 ^ 1023" by simp
  then have "2 ^ 1024 \<le> \<bar>2 * w\<bar>" "2 ^ 1024 \<le> \<bar>95 * w\<bar>"
    using assms(2) w0 by linarith+
  then have o: "roundDouble (2 * w) = PosInf" "roundDouble (95 * w) = PosInf"
    using assms(2) w0 by (simp_all add: roundDouble_overflow)
  show a: "scaleAverage [graded 95 w, graded 95 w] = NaN"
    by (simp add: scaleAverage_def jsSum_def contribution_def graded_def assms(1) o)
  have "computeEntryNumeric (scaleEntry [graded 95 w, graded 95 w])
    = getProp letterToNumeric (percentageToLetter (scaleAverage [graded 95 w, graded 95 w]))"
    using computeEntryNumeric_scale_eq [of "scaleEntry [graded 95 w, graded 95 w]"]
    by (simp add: scaleEntry_def assignmentsOrEmpty_def)
  then show "computeEntryNumeric (scaleEntry [graded 95 w, graded 95 w]) = Number (Fin 0)"
    unfolding a by (simp add: percentageToLetter_def getProp_def letterToNumeric_def)
qed

lemma computeAverageCGPA_overflow:
  assumes "roundDouble w = Fin w" and "2 ^ 1023 \<le> w"
  shows "computeAverageCGPA numberToString [finalEntry y s ''A+'' (Fin w)] = ''Infinity''"
proof -
  have w0: "(0::real) < 2 ^ 1023" by simp
  have "(2::real) ^ 1024 = 2 * 2 ^ 1023" by simp
  then have "2 ^ 1024 \<le> \<bar>10 * w\<bar>"
    using assms(2) w0 by linarith
  then have o: "roundDouble (10 * w) = PosInf"
    using assms(2) w0 by (simp add: roundDouble_overflow)
  have w: "w \<noteq> 0" "0 < w" using assms(2) w0 by linarith+
  have n: "toNumber (computeEntryNumeric (finalEntry y s ''A+'' (Fin w))) = Fin 10"
    by (simp add: finalEntry_def computeEntryNumeric_def finalGradeOrF_def getProp_def
        letterToNumeric_def)
  have c: "creditsOr3 (finalEntry y s ''A+'' (Fin w)) = Fin w"
    using w by (simp add: finalEntry_def creditsOr3_def)
  have "jsDiv (totalWeightedPoints [finalEntry y s ''A+'' (Fin w)])
          (totalCredits [finalEntry y s ''A+'' (Fin w)]) = PosInf"
    using w by (simp add: totalWeightedPoints_def totalCredits_def jsSum_def n c o assms(1))
  then show ?thesis
    by (simp add: computeAverageCGPA_nonempty toFixed_def)
qed

lemma roundDouble_1e308:
  "roundDouble (10 ^ 308)
   = Fin
     100000000000000001097906362944045541740492309677311846336810682903157585404911491537163328978494688899061249669721172515611590283743140088328307009198146046031271664502933027185697489699588559043338384466165001178426897626212945177628091195786707458122783970171784415105291802893207873272974885715430223118336"
proof -
  have "roundDouble (10 ^ 308) =
    (let v = of_int (roundHalfEven (\<bar>10 ^ 308\<bar> / pow2 (1023 - 52))) * pow2 (1023 - 52)
     in if 2 ^ 1024 \<le> v then (if (10 ^ 308 :: real) < 0 then NegInf else PosInf)
        else Fin (if (10 ^ 308 :: real) < 0 then - v else v))"
    by (rule roundDouble_binade) (simp_all add: pow2_numeral pow2_neg_numeral)
  moreover have "roundHalfEven (\<bar>10 ^ 308\<bar> / pow2 (1023 - 52)) = 5010420900022432"
    by (simp add: pow2_numeral pow2_neg_numeral roundHalfEven_def)
  ultimately show ?thesis
    by (simp add: pow2_numeral pow2_neg_numeral)
qed

lemma double_1e308:
  "roundDouble
     100000000000000001097906362944045541740492309677311846336810682903157585404911491537163328978494688899061249669721172515611590283743140088328307009198146046031271664502933027185697489699588559043338384466165001178426897626212945177628091195786707458122783970171784415105291802893207873272974885715430223118336
   = Fin
     100000000000000001097906362944045541740492309677311846336810682903157585404911491537163328978494688899061249669721172515611590283743140088328307009198146046031271664502933027185697489699588559043338384466165001178426897626212945177628091195786707458122783970171784415105291802893207873272974885715430223118336"
  "(2::real) ^ 1023
   \<le> 100000000000000001097906362944045541740492309677311846336810682903157585404911491537163328978494688899061249669721172515611590283743140088328307009198146046031271664502933027185697489699588559043338384466165001178426897626212945177628091195786707458122783970171784415105291802893207873272974885715430223118336"
proof -
  show "roundDouble
     100000000000000001097906362944045541740492309677311846336810682903157585404911491537163328978494688899061249669721172515611590283743140088328307009198146046031271664502933027185697489699588559043338384466165001178426897626212945177628091195786707458122783970171784415105291802893207873272974885715430223118336
   = Fin
     100000000000000001097906362944045541740492309677311846336810682903157585404911491537163328978494688899061249669721172515611590283743140088328307009198146046031271664502933027185697489699588559043338384466165001178426897626212945177628091195786707458122783970171784415105291802893207873272974885715430223118336"
    by (rule roundDouble_exact [where m = 5010420900022432 and e = 971])
       (simp_all add: pow2_numeral)
  show "(2::real) ^ 1023
   \<le> 100000000000000001097906362944045541740492309677311846336810682903157585404911491537163328978494688899061249669721172515611590283743140088328307009198146046031271664502933027185697489699588559043338384466165001178426897626212945177628091195786707458122783970171784415105291802893207873272974885715430223118336"
    by simp
qed

lemma scale_overflow_1e308:
  "computeEntryNumeric (scaleEntry
     [graded 95
        100000000000000001097906362944045541740492309677311846336810682903157585404911491537163328978494688899061249669721172515611590283743140088328307009198146046031271664502933027185697489699588559043338384466165001178426897626212945177628091195786707458122783970171784415105291802893207873272974885715430223118336,
      graded 95
        100000000000000001097906362944045541740492309677311846336810682903157585404911491537163328978494688899061249669721172515611590283743140088328307009198146046031271664502933027185697489699588559043338384466165001178426897626212945177628091195786707458122783970171784415105291802893207873272974885715430223118336])
   = Number (Fin 0)"
  by (rule scale_overflow(2) [OF double_1e308])

lemma computeAverageCGPA_overflow_1e308:
  "computeAverageCGPA numberToString
     [finalEntry y s ''A+''
        (Fin
          100000000000000001097906362944045541740492309677311846336810682903157585404911491537163328978494688899061249669721172515611590283743140088328307009198146046031271664502933027185697489699588559043338384466165001178426897626212945177628091195786707458122783970171784415105291802893207873272974885715430223118336)]
   = ''Infinity''"
  by (rule computeAverageCGPA_overflow [OF double_1e308])

subsection \<open>The chart input\<close>

lemma set_encounterOrder [simp]: "set (encounterOrder ks) = set ks"
  by (induction ks) auto

lemma encounterOrder_snoc:
  "encounterOrder (ks @ [k]) = (if k \<in> set ks then encounterOrder ks else encounterOrder ks @ [k])"
proof (induction ks)
  case Nil
  show ?case by simp
next
  case (Cons a ks)
  show ?case
  proof (cases "k \<in> set ks")
    case True
    then show ?thesis using Cons.IH by simp
  next
    case False
    then show ?thesis using Cons.IH by (cases "k = a") simp_all
  qed
qed

lemma space_in_groupKey: "CHR '' '' \<in> set (groupKey entry)"
  by (simp add: groupKey_def)

lemma no_space_in_objectPrototypeKeys:
  "key \<in> set objectPrototypeKeys \<Longrightarrow> CHR '' '' \<notin> set key"
  by (auto simp: objectPrototypeKeys_def)

lemma groupKey_not_inherited: "groupKey entry \<notin> set objectPrototypeKeys"
  using no_space_in_objectPrototypeKeys space_in_groupKey by blast

lemma not_isDigit_space: "\<not> isDigit (CHR '' '')"
  by (simp add: isDigit_def)

lemma no_space_in_array_index:
  assumes "isArrayIndex key"
  shows "CHR '' '' \<notin> set key"
proof
  assume "CHR '' '' \<in> set key"
  moreover have "list_all isDigit key" using assms unfolding isArrayIndex_def by blast
  ultimately have "isDigit (CHR '' '')" unfolding list_all_iff by blast
  then show False using not_isDigit_space by simp
qed

lemma groupKey_not_array_index: "\<not> isArrayIndex (groupKey entry)"
  using no_space_in_array_index space_in_groupKey by blast

lemma map_of_keyed:
  "map_of (map (\<lambda>k. (k, f k)) ks) k = (if k \<in> set ks then Some (f k) else None)"
  by (induction ks) auto

lemma map_of_groupsOf:
  "map_of (groupsOf entries) k
   = (if k \<in> set (map groupKey entries) then Some (groupOf k entries) else None)"
  unfolding groupsOf_def map_of_keyed by simp

lemma groupOf_snoc:
  "groupOf k (entries @ [entry])
   = (if groupKey entry = k then groupOf k entries @ [entry] else groupOf k entries)"
  by (simp add: groupOf_def)

lemma groupOf_absent: "k \<notin> set (map groupKey entries) \<Longrightarrow> groupOf k entries = []"
  by (induction entries) (auto simp: groupOf_def)

lemma addToGroup_groupsOf:
  "addToGroup (groupsOf pre) entry = Inr (groupsOf (pre @ [entry]))"
proof (cases "groupKey entry \<in> set (map groupKey pre)")
  case True
  then have m: "map_of (groupsOf pre) (groupKey entry) = Some (groupOf (groupKey entry) pre)"
    by (simp add: map_of_groupsOf)
  have e: "encounterOrder (map groupKey (pre @ [entry])) = encounterOrder (map groupKey pre)"
    using True by (simp add: encounterOrder_snoc)
  have "map (\<lambda>(k, es). if k = groupKey entry then (k, es @ [entry]) else (k, es)) (groupsOf pre)
        = groupsOf (pre @ [entry])"
    unfolding groupsOf_def e by (auto simp: groupOf_snoc)
  then show ?thesis
    by (simp add: addToGroup_def m Let_def)
next
  case False
  then have m: "map_of (groupsOf pre) (groupKey entry) = None"
    by (simp add: map_of_groupsOf)
  have e: "encounterOrder (map groupKey (pre @ [entry])) = encounterOrder (map groupKey pre) @ [groupKey entry]"
    using False by (simp add: encounterOrder_snoc)
  have "groupsOf pre @ [(groupKey entry, [entry])] = groupsOf (pre @ [entry])"
    unfolding groupsOf_def e using False by (auto simp: groupOf_snoc groupOf_absent)
  then show ?thesis
    by (simp add: addToGroup_def m Let_def groupKey_not_inherited)
qed

lemma groupEntries_groupsOf:
  "groupEntries (groupsOf pre) entries = Inr (groupsOf (pre @ entries))"
proof (induction entries arbitrary: pre)
  case Nil
  show ?case by simp
next
  case (Cons e es)
  show ?case using Cons.IH [of "pre @ [e]"] by (simp add: addToGroup_groupsOf)
qed

lemma groupEntries_empty: "groupEntries [] entries = Inr (groupsOf entries)"
  using groupEntries_groupsOf [of "[]" entries] by (simp add: groupsOf_def)

lemma objectKeys_groupsOf: "objectKeys (groupsOf entries) = encounterOrder (map groupKey entries)"
proof -
  have k: "map fst (groupsOf entries) = encounterOrder (map groupKey entries)"
    by (simp add: groupsOf_def comp_def)
  have "\<forall>k \<in> set (encounterOrder (map groupKey entries)). \<not> isArrayIndex k"
    using groupKey_not_array_index by auto
  then have "filter isArrayIndex (encounterOrder (map groupKey entries)) = []"
    and "filter (\<lambda>k. \<not> isArrayIndex k) (encounterOrder (map groupKey entries))
         = encounterOrder (map groupKey entries)"
    by (simp_all add: filter_empty_conv filter_id_conv)
  then show ?thesis
    by (simp add: objectKeys_def k Let_def)
qed

lemma chartRows_groupsOf:
  assumes "set ks \<subseteq> set (map groupKey entries)"
  shows "chartRows cgpa (groupsOf entries) ks acc
         = Inr (fst acc @ ks, snd acc @ map (\<lambda>k. parseFloat (cgpa (groupOf k entries))) ks)"
  using assms
proof (induction ks arbitrary: acc)
  case Nil
  show ?case by simp
next
  case (Cons k ks)
  then have m: "map_of (groupsOf entries) k = Some (groupOf k entries)"
    by (simp add: map_of_groupsOf)
  show ?case
    using Cons by (simp add: m)
qed

lemma buildChart_spec: "buildChart cgpa entries overall = Inr (chartInputSpec cgpa entries overall)"
proof -
  have p: "parseFloat ''0'' = Fin 0"
    by (simp add: parseFloat_def strUnsignedDecimal_def isWhiteSpace_def isDigit_def
        digitsValue_def digitValue_def exponentPart_def scale10_def)
  have r: "chartRows cgpa (groupsOf entries) (encounterOrder (map groupKey entries)) ([], [])
           = Inr (encounterOrder (map groupKey entries),
                  map (\<lambda>k. parseFloat (cgpa (groupOf k entries)))
                    (encounterOrder (map groupKey entries)))"
    using chartRows_groupsOf [of "encounterOrder (map groupKey entries)" entries cgpa "([], [])"]
    by simp
  show ?thesis
    by (simp add: buildChart_def groupEntries_empty objectKeys_groupsOf r chartInputSpec_def p)
qed

lemma parseFloat_NA: "parseFloat ''N/A'' = NaN"
  by (simp add: parseFloat_def strUnsignedDecimal_def isWhiteSpace_def isDigit_def)

text \<open>
  The binary64 values of \<open>19 / 3\<close> and of \<open>6.33\<close>, for the example below.
\<close>

lemma roundDouble_19_3: "roundDouble (19 / 3) = Fin (7130699410003285 / 1125899906842624)"
proof -
  have "roundDouble (19 / 3) =
    (let v = of_int (roundHalfEven (\<bar>19 / 3\<bar> / pow2 (2 - 52))) * pow2 (2 - 52)
     in if 2 ^ 1024 \<le> v then (if (19 / 3 :: real) < 0 then NegInf else PosInf)
        else Fin (if (19 / 3 :: real) < 0 then - v else v))"
    by (rule roundDouble_binade) (simp_all add: pow2_numeral pow2_neg_numeral)
  moreover have "roundHalfEven (\<bar>19 / 3\<bar> / pow2 (2 - 52)) = 7130699410003285"
    by (simp add: pow2_numeral pow2_neg_numeral roundHalfEven_def)
  ultimately show ?thesis
    by (simp add: pow2_numeral pow2_neg_numeral)
qed

lemma roundDouble_633: "roundDouble (633 / 100) = Fin (3563473205156905 / 562949953421312)"
proof -
  have "roundDouble (633 / 100) =
    (let v = of_int (roundHalfEven (\<bar>633 / 100\<bar> / pow2 (2 - 52))) * pow2 (2 - 52)
     in if 2 ^ 1024 \<le> v then (if (633 / 100 :: real) < 0 then NegInf else PosInf)
        else Fin (if (633 / 100 :: real) < 0 then - v else v))"
    by (rule roundDouble_binade) (simp_all add: pow2_numeral pow2_neg_numeral)
  moreover have "roundHalfEven (\<bar>633 / 100\<bar> / pow2 (2 - 52)) = 7126946410313810"
    by (simp add: pow2_numeral pow2_neg_numeral roundHalfEven_def)
  ultimately show ?thesis
    by (simp add: pow2_numeral pow2_neg_numeral)
qed

lemma chart_example_groups:
  "encounterOrder (map groupKey
     [finalEntry ''2024'' ''Fall'' ''A'' (Fin 3), finalEntry ''2023'' ''Winter'' ''B'' (Fin 3),
      finalEntry ''2024'' ''Fall'' ''C'' (Fin 3)]) = [''2024 Fall'', ''2023 Winter'']"
  by (simp add: groupKey_def finalEntry_def)

text \<open>
  Claim C8. For every list of entries, the chart input built in the body of \<^verbatim>\<open>App\<close>
  and the one built by \<^verbatim>\<open>ChartAnalytics\<close> (which \<^verbatim>\<open>App\<close> renders for a non-empty
  collection, with its own \<^verbatim>\<open>totalCgpa\<close>) are built without an error and are the chart
  input of the specification: the labels are the \<^verbatim>\<open>"<year> <semester>"\<close> keys in the
  order in which each group is first encountered, then \<^verbatim>\<open>"Overall"\<close>; the value of a
  group is its CGPA parsed as a number, and the last value is the overall CGPA, with
  \<^verbatim>\<open>"N/A"\<close> mapped to 0. For the empty collection the chart is the single bar
  \<^verbatim>\<open>"Overall"\<close> of height 0.
\<close>

theorem chart_input:
  "AppChartData numberToString entries
     = Inr (chartInputSpec (computeAverageCGPA numberToString) entries
              (computeAverageCGPA numberToString entries))
   \<and> ChartAnalytics numberToString entries totalCgpa
     = Inr (chartInputSpec (computeAverageCGPA numberToString) entries totalCgpa)
   \<and> analyticsSection numberToString (entry # entries)
     = Some (Inr (chartInputSpec (computeAverageCGPA numberToString) (entry # entries)
                    (computeAverageCGPA numberToString (entry # entries))))
   \<and> AppChartData numberToString [] = Inr \<lparr>labels = [''Overall''], dataValues = [Fin 0]\<rparr>"
proof -
  have a: "AppChartData numberToString es
     = Inr (chartInputSpec (computeAverageCGPA numberToString) es
              (computeAverageCGPA numberToString es))" for es
    by (simp add: AppChartData_def computeAverageCGPA_App_eq buildChart_spec)
  have b: "ChartAnalytics numberToString es t
     = Inr (chartInputSpec (computeAverageCGPA numberToString) es t)" for es t
    by (simp add: ChartAnalytics_def buildChart_spec)
  have c: "analyticsSection numberToString (entry # entries)
     = Some (Inr (chartInputSpec (computeAverageCGPA numberToString) (entry # entries)
                    (computeAverageCGPA numberToString (entry # entries))))"
    by (simp add: analyticsSection_def b computeAverageCGPA_App_eq)
  have d: "chartInputSpec (computeAverageCGPA numberToString) []
             (computeAverageCGPA numberToString [])
           = \<lparr>labels = [''Overall''], dataValues = [Fin 0]\<rparr>"
    by (simp add: chartInputSpec_def computeAverageCGPA_def)
  show ?thesis
    using a [of entries] b [of entries totalCgpa] c a [of "[]"] by (simp add: d)
qed

text \<open>
  An instance: three final-grade entries of 3 credits, \<open>A\<close> and \<open>C\<close> in 2024 Fall and
  \<open>B\<close> in 2023 Winter between them, give the labels 2024 Fall, 2023 Winter, Overall
  and the values 6.5, 6 and the binary64 value of 6.33: the overall quotient
  \<open>57 / 9\<close> is rounded to binary64, printed as \<^verbatim>\<open>"6.33"\<close> and parsed again.
\<close>

theorem chart_input_witness:
  "AppChartData (\<lambda>r. [])
     [finalEntry ''2024'' ''Fall'' ''A'' (Fin 3), finalEntry ''2023'' ''Winter'' ''B'' (Fin 3),
      finalEntry ''2024'' ''Fall'' ''C'' (Fin 3)]
   = Inr \<lparr>labels = [''2024 Fall'', ''2023 Winter'', ''Overall''],
          dataValues = [Fin 6.5, Fin 6, Fin (3563473205156905 / 562949953421312)]\<rparr>"
proof -
  let ?a = "finalEntry ''2024'' ''Fall'' ''A'' (Fin 3)"
  let ?b = "finalEntry ''2023'' ''Winter'' ''B'' (Fin 3)"
  let ?c = "finalEntry ''2024'' ''Fall'' ''C'' (Fin 3)"
  have k: "groupKey ?a = ''2024 Fall''" "groupKey ?b = ''2023 Winter''" "groupKey ?c = ''2024 Fall''"
    by (simp_all add: groupKey_def finalEntry_def)
  have g: "groupOf ''2024 Fall'' [?a, ?b, ?c] = [?a, ?c]"
          "groupOf ''2023 Winter'' [?a, ?b, ?c] = [?b]"
    by (simp_all add: groupOf_def k)
  have n: "toNumber (computeEntryNumeric ?a) = Fin 9" "toNumber (computeEntryNumeric ?b) = Fin 6"
          "toNumber (computeEntryNumeric ?c) = Fin 4"
    by (simp_all add: finalEntry_def computeEntryNumeric_def finalGradeOrF_def getProp_def
        letterToNumeric_def)
  have cr: "creditsOr3 ?a = Fin 3" "creditsOr3 ?b = Fin 3" "creditsOr3 ?c = Fin 3"
    by (simp_all add: finalEntry_def creditsOr3_def)
  have q: "jsDiv (totalWeightedPoints [?a, ?c]) (totalCredits [?a, ?c]) = Fin 6.5"
          "jsDiv (totalWeightedPoints [?b]) (totalCredits [?b]) = Fin 6"
          "jsDiv (totalWeightedPoints [?a, ?b, ?c]) (totalCredits [?a, ?b, ?c])
           = Fin (7130699410003285 / 1125899906842624)"
    by (simp_all add: totalWeightedPoints_def totalCredits_def jsSum_def n cr roundDouble_numeral
        roundDouble_numeral_half roundDouble_19_3)
  have p: "parseFloat (computeAverageCGPA (\<lambda>r. []) [?a, ?c]) = Fin 6.5"
          "parseFloat (computeAverageCGPA (\<lambda>r. []) [?b]) = Fin 6"
          "parseFloat (computeAverageCGPA (\<lambda>r. []) [?a, ?b, ?c])
           = Fin (3563473205156905 / 562949953421312)"
    by (simp_all add: computeAverageCGPA_nonempty q parseFloat_toFixed_2 roundHundredths_def
        roundDouble_numeral roundDouble_numeral_half roundDouble_633)
  have t: "computeAverageCGPA (\<lambda>r. []) [?a, ?b, ?c] \<noteq> ''N/A''"
    using p(3) parseFloat_NA by auto
  have s: "chartInputSpec (computeAverageCGPA (\<lambda>r. [])) [?a, ?b, ?c]
             (computeAverageCGPA (\<lambda>r. []) [?a, ?b, ?c])
           = \<lparr>labels = [''2024 Fall'', ''2023 Winter'', ''Overall''],
              dataValues = [Fin 6.5, Fin 6, Fin (3563473205156905 / 562949953421312)]\<rparr>"
    unfolding chartInputSpec_def chart_example_groups by (simp add: g p t)
  show ?thesis
    using chart_input [where numberToString = "\<lambda>r. []" and entries = "[?a, ?b, ?c]"
        and totalCgpa = "[]" and entry = ?a, THEN conjunct1]
    unfolding s .
qed

end
